theory Spec2Isabelle
  imports Complex_Main
begin

section \<open>The DTX encoder \<^verbatim>\<open>modelToDTX\<close> of the xeokit viewer\<close>

text \<open>
  A shallow embedding of \<^verbatim>\<open>modelToDTX\<close>, the function that flattens a scene model
  (geometries with their buckets, textures, texture sets, meshes, objects) into the typed
  arrays of a DTX payload. The function has a size pre-pass, an allocation and a fill pass;
  each of them is a definition below, statement by statement.

  Conventions of the embedding.
  \<^item> A JavaScript number that is used as a count, an index or an array element of an
    integer array is a \<open>nat\<close> (an \<open>int\<close> where \<open>-1\<close> occurs); a number that is a
    coordinate, a colour component, a material factor or a matrix element is a \<open>real\<close>:
    the rounding of IEEE doubles and the rounding of a store into a \<^verbatim>\<open>Float32Array\<close> are
    not part of the model.
  \<^item> An optional field is an \<open>option\<close>; a present array is truthy in JavaScript even
    when it is empty, so \<^verbatim>\<open>if (bucket.indices)\<close> is the test for \<open>Some\<close>.
  \<^item> The value \<^verbatim>\<open>undefined\<close> is \<open>None\<close>; stored into an integer typed array it becomes 0.
  \<^item> An exception is the left summand of the result: reading a property of
    \<^verbatim>\<open>undefined\<close> is \<open>TypeError\<close>, a \<^verbatim>\<open>TypedArray.prototype.set\<close> whose source does not
    fit behind the offset is \<open>RangeError\<close>.
  \<^item> The id-keyed objects of the scene model are association lists in property order;
    \<^verbatim>\<open>Object.values\<close> and \<^verbatim>\<open>for (id in ...)\<close> walk them in that order.
  \<^item> The \<^verbatim>\<open>metadata\<close> slot of the payload (the JSON of the optional data model) is opaque
    to the encoder and is left out.
\<close>

subsection \<open>Exceptions and typed arrays\<close>

datatype js_error = TypeError | RangeError

text \<open>The conversions a typed array applies to a stored number.\<close>

definition toUint8 :: "nat \<Rightarrow> nat" where
  "toUint8 n = n mod 2 ^ 8"

definition toUint16 :: "nat \<Rightarrow> nat" where
  "toUint16 n = n mod 2 ^ 16"

definition toUint32 :: "nat \<Rightarrow> nat" where
  "toUint32 n = n mod 2 ^ 32"

definition toInt32 :: "int \<Rightarrow> int" where
  "toInt32 i = (i + 2 ^ 31) mod 2 ^ 32 - 2 ^ 31"

text \<open>ECMAScript \<^verbatim>\<open>truncate\<close>: rounding towards zero.\<close>

definition truncate_num :: "real \<Rightarrow> int" where
  "truncate_num x = (if x < 0 then \<lceil>x\<rceil> else \<lfloor>x\<rfloor>)"

text \<open>\<^verbatim>\<open>ToUint8\<close> of a (finite) number: truncate, then reduce modulo \<open>2^8\<close>.\<close>

definition numToUint8 :: "real \<Rightarrow> nat" where
  "numToUint8 x = nat (truncate_num x mod 2 ^ 8)"

text \<open>Stores of a value that may be \<^verbatim>\<open>undefined\<close>.\<close>

definition undefToUint8 :: "nat option \<Rightarrow> nat" where
  "undefToUint8 v = (case v of None \<Rightarrow> 0 | Some n \<Rightarrow> toUint8 n)"

definition undefToUint32 :: "nat option \<Rightarrow> nat" where
  "undefToUint32 v = (case v of None \<Rightarrow> 0 | Some n \<Rightarrow> toUint32 n)"

definition undefToInt32 :: "int option \<Rightarrow> int" where
  "undefToInt32 v = (case v of None \<Rightarrow> 0 | Some i \<Rightarrow> toInt32 i)"

text \<open>
  \<^verbatim>\<open>target.set(source, offset)\<close> on a typed array: a \<open>RangeError\<close> when the source does
  not fit behind the offset, otherwise the elements of the source (already converted to
  the element type of the target) replace those of the target from the offset on.
  An indexed store \<^verbatim>\<open>target[i] = v\<close> on a typed array is \<open>target[i := v]\<close>: out of range
  it does nothing.
\<close>

definition typedArraySet :: "'a list \<Rightarrow> 'a list \<Rightarrow> nat \<Rightarrow> js_error + 'a list" where
  "typedArraySet target source offs =
     (if length source + offs > length target then Inl RangeError
      else Inr (take offs target @ source @ drop (offs + length source) target))"

text \<open>
  An indexed store on an ordinary array, which grows: the elements between the old end
  and the index are holes (\<open>None\<close>).
\<close>

definition arraySet :: "'a option list \<Rightarrow> nat \<Rightarrow> 'a \<Rightarrow> 'a option list" where
  "arraySet xs i v =
     (if i < length xs then xs[i := Some v]
      else xs @ replicate (i - length xs) None @ [Some v])"

text \<open>A loop over a list whose body may throw.\<close>

fun foldE :: "('a \<Rightarrow> 's \<Rightarrow> js_error + 's) \<Rightarrow> 'a list \<Rightarrow> 's \<Rightarrow> js_error + 's" where
  "foldE f [] s = Inr s"
| "foldE f (x # xs) s = (case f x s of Inl e \<Rightarrow> Inl e | Inr s' \<Rightarrow> foldE f xs s')"

subsection \<open>The scene model\<close>

text \<open>
  The primitive constants are imported from \<^verbatim>\<open>@xeokit/constants\<close>, which is not among
  the sources: the five the \<^verbatim>\<open>switch\<close> names are five distinct constructors, any other
  value of \<^verbatim>\<open>geometry.primitive\<close> is \<open>OtherPrimitive\<close>.
\<close>

datatype primitive =
    TrianglesPrimitive
  | SolidPrimitive
  | SurfacePrimitive
  | LinesPrimitive
  | PointsPrimitive
  | OtherPrimitive nat

record GeometryBucket =
  positionsCompressed :: "nat list option"
  indices :: "nat list option"
  edgeIndices :: "nat list option"
  colorsCompressed :: "nat list option"
  uvsCompressed :: "real list option"

record Geometry =
  geometry_id :: string
  primitive :: primitive
  positionsDecompressMatrix :: "real list"
  geometryBuckets :: "GeometryBucket list"

text \<open>\<^verbatim>\<open>imageData\<close> is a byte array, so its \<^verbatim>\<open>byteLength\<close> is its length.\<close>

record Texture =
  texture_id :: string
  imageData :: "nat list"
  compressed :: bool
  mediaType :: "nat option"
  width :: nat
  height :: nat
  minFilter :: "nat option"
  magFilter :: "nat option"
  wrapS :: "nat option"
  wrapT :: "nat option"
  wrapR :: "nat option"

record TextureSet =
  textureSet_id :: string
  colorTexture :: "Texture option"
  metallicRoughnessTexture :: "Texture option"
  emissiveTexture :: "Texture option"
  occlusionTexture :: "Texture option"

record Mesh =
  mesh_id :: string
  geometry :: Geometry
  matrix :: "real list"
  origin :: "real \<times> real \<times> real"
  textureSet :: "TextureSet option"
  color :: "real \<times> real \<times> real"
  opacity :: real
  metallic :: real
  roughness :: real

record SceneObject =
  object_id :: string
  object_meshes :: "Mesh list"

record SceneModel =
  geometries :: "(string \<times> Geometry) list"
  textures :: "(string \<times> Texture) list"
  textureSets :: "(string \<times> TextureSet) list"
  meshes :: "(string \<times> Mesh) list"
  objects :: "(string \<times> SceneObject) list"

text \<open>
  What the function takes from outside the sources: two constants of
  \<^verbatim>\<open>@xeokit/constants\<close> and the conversion of a number to a string that a template
  literal applies.
\<close>

record Env =
  LinearMipmapLinearFilter :: nat
  ClampToEdgeWrapping :: nat
  numberToString :: "real \<Rightarrow> string"

subsection \<open>The payload and the state of the fill pass\<close>

record DTXData =
  textureData :: "nat list"
  eachTextureDataPortion :: "nat list"
  eachTextureAttributes :: "nat list"
  positions :: "nat list"
  colors :: "nat list"
  uvs :: "real list"
  indices8Bit :: "nat list"
  indices16Bit :: "nat list"
  indices32Bit :: "nat list"
  edgeIndices8Bit :: "nat list"
  edgeIndices16Bit :: "nat list"
  edgeIndices32Bit :: "nat list"
  eachTextureSetTextures :: "int list"
  decodeMatrices :: "real list"
  eachBucketPositionsPortion :: "nat list"
  eachBucketColorsPortion :: "nat list"
  eachBucketUVsPortion :: "nat list"
  eachBucketIndicesPortion :: "nat list"
  eachBucketEdgeIndicesPortion :: "nat list"
  eachBucketIndicesBitness :: "nat list"
  eachGeometryPrimitiveType :: "nat list"
  eachGeometryBucketPortion :: "nat list"
  eachGeometryDecodeMatricesPortion :: "nat list"
  matrices :: "real list"
  origins :: "real list"
  eachMeshGeometriesPortion :: "nat list"
  eachMeshMatricesPortion :: "nat list"
  eachMeshOriginsPortion :: "nat list"
  eachMeshTextureSet :: "int list"
  eachMeshMaterialAttributes :: "nat list"
  eachGeometryId :: "string option list"
  eachMeshId :: "string option list"
  eachObjectId :: "string option list"
  eachObjectMeshesPortion :: "nat list"

text \<open>
  The fill pass works on the payload and on its local variables: the write cursors, the
  loop indices and the lookup tables. The state is the payload extended by them.
\<close>

record FillState = DTXData +
  countBuckets :: nat
  countPositions :: nat
  countColors :: nat
  countUVs :: nat
  countIndices8Bit :: nat
  countIndices16Bit :: nat
  countIndices32Bit :: nat
  countEdgeIndices8Bit :: nat
  countEdgeIndices16Bit :: nat
  countEdgeIndices32Bit :: nat
  countDecodeMatrices :: nat
  geometryIndex :: nat
  geometryIndices :: "string \<rightharpoonup> nat"
  textureIndex :: nat
  portionIdx :: nat
  textureIndices :: "string \<rightharpoonup> nat"
  textureSetIndex :: nat
  eachTextureSetTexturesIndex :: nat
  textureSetIndices :: "string \<rightharpoonup> nat"
  eachMeshMaterialAttributesIndex :: nat
  matricesIndex :: nat
  originsIndex :: nat
  countMeshes :: nat
  originLookup :: "string \<rightharpoonup> nat"
  objectIndex :: nat

definition NUM_TEXTURE_ATTRIBUTES :: nat where
  "NUM_TEXTURE_ATTRIBUTES = 9"

definition NUM_MATERIAL_ATTRIBUTES :: nat where
  "NUM_MATERIAL_ATTRIBUTES = 6"

subsection \<open>The size pre-pass\<close>

record Sizes =
  lenBuckets :: nat
  lenPositions :: nat
  lenColors :: nat
  lenUVs :: nat
  lenIndices8Bit :: nat
  lenIndices16Bit :: nat
  lenIndices32Bit :: nat
  lenEdgeIndices8Bit :: nat
  lenEdgeIndices16Bit :: nat
  lenEdgeIndices32Bit :: nat
  lenMatrices :: nat
  lenTextures :: nat
  lenDecodeMatrices :: nat

text \<open>
  The body of the inner loop of the pre-pass. \<^verbatim>\<open>numPositions\<close> is the quotient of a
  floating-point division, compared with \<^verbatim>\<open>1 << 8\<close> and \<^verbatim>\<open>1 << 16\<close>. Nothing adds to
  \<^verbatim>\<open>lenColors\<close>.
\<close>

definition sizeBucket :: "GeometryBucket \<Rightarrow> Sizes \<Rightarrow> Sizes" where
  "sizeBucket geometryBucket z =
     (case positionsCompressed geometryBucket of
        None \<Rightarrow> z
      | Some pc \<Rightarrow>
          (let numPositions = real (length pc) / 3;
               z1 = z\<lparr>lenPositions := lenPositions z + length pc\<rparr>;
               z2 = (case indices geometryBucket of
                       None \<Rightarrow> z1
                     | Some ix \<Rightarrow>
                         if numPositions \<le> 2 ^ 8
                         then z1\<lparr>lenIndices8Bit := lenIndices8Bit z1 + length ix\<rparr>
                         else if numPositions \<le> 2 ^ 16
                         then z1\<lparr>lenIndices16Bit := lenIndices16Bit z1 + length ix\<rparr>
                         else z1\<lparr>lenIndices32Bit := lenIndices32Bit z1 + length ix\<rparr>);
               z3 = (case edgeIndices geometryBucket of
                       None \<Rightarrow> z2
                     | Some ex \<Rightarrow>
                         if numPositions \<le> 2 ^ 8
                         then z2\<lparr>lenEdgeIndices8Bit := lenEdgeIndices8Bit z2 + length ex\<rparr>
                         else if numPositions \<le> 2 ^ 16
                         then z2\<lparr>lenEdgeIndices16Bit := lenEdgeIndices16Bit z2 + length ex\<rparr>
                         else z2\<lparr>lenEdgeIndices32Bit := lenEdgeIndices32Bit z2 + length ex\<rparr>)
           in (case uvsCompressed geometryBucket of
                 None \<Rightarrow> z3
               | Some uv \<Rightarrow> z3\<lparr>lenUVs := lenUVs z3 + length uv\<rparr>)))"

definition sizeGeometry :: "Geometry \<Rightarrow> Sizes \<Rightarrow> Sizes" where
  "sizeGeometry geom z =
     fold sizeBucket (geometryBuckets geom)
       (z\<lparr>lenBuckets := lenBuckets z + length (geometryBuckets geom)\<rparr>)"

definition sizeTexture :: "Texture \<Rightarrow> Sizes \<Rightarrow> Sizes" where
  "sizeTexture tex z = z\<lparr>lenTextures := lenTextures z + length (imageData tex)\<rparr>"

definition sizePrePass :: "SceneModel \<Rightarrow> Sizes" where
  "sizePrePass sceneModel =
     (let geometriesList = map snd (geometries sceneModel);
          texturesList = map snd (textures sceneModel);
          meshesList = map snd (meshes sceneModel);
          numGeometries = length geometriesList;
          numMeshes = length meshesList;
          z0 = \<lparr>lenBuckets = 0, lenPositions = 0, lenColors = 0, lenUVs = 0,
                lenIndices8Bit = 0, lenIndices16Bit = 0, lenIndices32Bit = 0,
                lenEdgeIndices8Bit = 0, lenEdgeIndices16Bit = 0, lenEdgeIndices32Bit = 0,
                lenMatrices = numMeshes * 16, lenTextures = 0, lenDecodeMatrices = 0\<rparr>;
          z1 = fold sizeGeometry geometriesList z0;
          z2 = fold sizeTexture texturesList z1
      in z2\<lparr>lenDecodeMatrices := numGeometries * 16\<rparr>)"

subsection \<open>The allocation\<close>

text \<open>
  Every typed array is created with its length and holds zeros; the three id arrays are
  empty ordinary arrays. The cursors and tables of the fill pass start at zero and empty.
\<close>

definition allocate :: "SceneModel \<Rightarrow> Sizes \<Rightarrow> FillState" where
  "allocate sceneModel z =
     (let numGeometries = length (map snd (geometries sceneModel));
          numTextures = length (map snd (textures sceneModel));
          numTextureSets = length (map snd (textureSets sceneModel));
          numMeshes = length (map snd (meshes sceneModel));
          numObjects = length (map snd (objects sceneModel))
      in \<lparr>textureData = replicate (lenTextures z) 0,
          eachTextureDataPortion = replicate numTextures 0,
          eachTextureAttributes = replicate (numTextures * NUM_TEXTURE_ATTRIBUTES) 0,
          positions = replicate (lenPositions z) 0,
          colors = replicate (lenColors z) 0,
          uvs = replicate (lenUVs z) 0,
          indices8Bit = replicate (lenIndices8Bit z) 0,
          indices16Bit = replicate (lenIndices16Bit z) 0,
          indices32Bit = replicate (lenIndices32Bit z) 0,
          edgeIndices8Bit = replicate (lenEdgeIndices8Bit z) 0,
          edgeIndices16Bit = replicate (lenEdgeIndices16Bit z) 0,
          edgeIndices32Bit = replicate (lenEdgeIndices32Bit z) 0,
          eachTextureSetTextures = replicate (numTextureSets * 5) 0,
          decodeMatrices = replicate (lenDecodeMatrices z) 0,
          eachBucketPositionsPortion = replicate (lenBuckets z) 0,
          eachBucketColorsPortion = replicate (lenBuckets z) 0,
          eachBucketUVsPortion = replicate (lenBuckets z) 0,
          eachBucketIndicesPortion = replicate (lenBuckets z) 0,
          eachBucketEdgeIndicesPortion = replicate (lenBuckets z) 0,
          eachBucketIndicesBitness = replicate (lenBuckets z) 0,
          eachGeometryPrimitiveType = replicate numGeometries 0,
          eachGeometryBucketPortion = replicate numGeometries 0,
          eachGeometryDecodeMatricesPortion = replicate numGeometries 0,
          matrices = replicate (numMeshes * 16) 0,
          origins = replicate (numMeshes * 16) 0,
          eachMeshGeometriesPortion = replicate numMeshes 0,
          eachMeshMatricesPortion = replicate numMeshes 0,
          eachMeshOriginsPortion = replicate numMeshes 0,
          eachMeshTextureSet = replicate numMeshes 0,
          eachMeshMaterialAttributes = replicate (numMeshes * NUM_MATERIAL_ATTRIBUTES) 0,
          eachGeometryId = [],
          eachMeshId = [],
          eachObjectId = [],
          eachObjectMeshesPortion = replicate numObjects 0,
          countBuckets = 0, countPositions = 0, countColors = 0, countUVs = 0,
          countIndices8Bit = 0, countIndices16Bit = 0, countIndices32Bit = 0,
          countEdgeIndices8Bit = 0, countEdgeIndices16Bit = 0, countEdgeIndices32Bit = 0,
          countDecodeMatrices = 0,
          geometryIndex = 0, geometryIndices = Map.empty,
          textureIndex = 0, portionIdx = 0, textureIndices = Map.empty,
          textureSetIndex = 0, eachTextureSetTexturesIndex = 0, textureSetIndices = Map.empty,
          eachMeshMaterialAttributesIndex = 0, matricesIndex = 0, originsIndex = 0,
          countMeshes = 0, originLookup = Map.empty, objectIndex = 0\<rparr>)"

subsection \<open>The fill pass: geometries and buckets\<close>

definition primitiveTypeCode :: "primitive \<Rightarrow> nat option" where
  "primitiveTypeCode p =
     (case p of
        TrianglesPrimitive \<Rightarrow> Some 0
      | SolidPrimitive \<Rightarrow> Some 1
      | SurfacePrimitive \<Rightarrow> Some 2
      | LinesPrimitive \<Rightarrow> Some 3
      | PointsPrimitive \<Rightarrow> Some 4
      | OtherPrimitive _ \<Rightarrow> None)"

text \<open>
  The \<^verbatim>\<open>switch\<close> has no \<^verbatim>\<open>default\<close>: for any other primitive the variable
  \<^verbatim>\<open>primitiveType\<close> stays \<^verbatim>\<open>undefined\<close>, here \<open>None\<close>.
\<close>

definition bucketIndicesBitness :: "nat \<Rightarrow> nat" where
  "bucketIndicesBitness lenBucketPositions =
     (let numBucketPositions = real lenBucketPositions / 3
      in if numBucketPositions \<le> 2 ^ 8 then 0
         else if numBucketPositions \<le> 2 ^ 16 then 1 else 2)"

definition fillBucketIndices :: "nat \<Rightarrow> GeometryBucket \<Rightarrow> FillState \<Rightarrow> js_error + FillState" where
  "fillBucketIndices bitness geometryBucket s =
     (case indices geometryBucket of
        None \<Rightarrow> Inr s
      | Some ix \<Rightarrow>
          if bitness = 0 then
            (case typedArraySet (indices8Bit s) (map toUint8 ix) (countIndices8Bit s) of
               Inl e \<Rightarrow> Inl e
             | Inr a \<Rightarrow>
                 Inr (s\<lparr>indices8Bit := a,
                        eachBucketIndicesPortion :=
                          (eachBucketIndicesPortion s)[countBuckets s := toUint32 (countIndices8Bit s)],
                        countIndices8Bit := countIndices8Bit s + length ix\<rparr>))
          else if bitness = 1 then
            (case typedArraySet (indices16Bit s) (map toUint16 ix) (countIndices16Bit s) of
               Inl e \<Rightarrow> Inl e
             | Inr a \<Rightarrow>
                 Inr (s\<lparr>indices16Bit := a,
                        eachBucketIndicesPortion :=
                          (eachBucketIndicesPortion s)[countBuckets s := toUint32 (countIndices16Bit s)],
                        countIndices16Bit := countIndices16Bit s + length ix\<rparr>))
          else if bitness = 2 then
            (case typedArraySet (indices32Bit s) (map toUint32 ix) (countIndices32Bit s) of
               Inl e \<Rightarrow> Inl e
             | Inr a \<Rightarrow>
                 Inr (s\<lparr>indices32Bit := a,
                        eachBucketIndicesPortion :=
                          (eachBucketIndicesPortion s)[countBuckets s := toUint32 (countIndices32Bit s)],
                        countIndices32Bit := countIndices32Bit s + length ix\<rparr>))
          else Inr s)"

definition fillBucketEdgeIndices :: "nat \<Rightarrow> GeometryBucket \<Rightarrow> FillState \<Rightarrow> js_error + FillState" where
  "fillBucketEdgeIndices bitness geometryBucket s =
     (case edgeIndices geometryBucket of
        None \<Rightarrow> Inr s
      | Some ex \<Rightarrow>
          if bitness = 0 then
            (case typedArraySet (edgeIndices8Bit s) (map toUint8 ex) (countEdgeIndices8Bit s) of
               Inl e \<Rightarrow> Inl e
             | Inr a \<Rightarrow>
                 Inr (s\<lparr>edgeIndices8Bit := a,
                        eachBucketEdgeIndicesPortion :=
                          (eachBucketEdgeIndicesPortion s)[countBuckets s := toUint32 (countEdgeIndices8Bit s)],
                        countEdgeIndices8Bit := countEdgeIndices8Bit s + length ex\<rparr>))
          else if bitness = 1 then
            (case typedArraySet (edgeIndices16Bit s) (map toUint16 ex) (countEdgeIndices16Bit s) of
               Inl e \<Rightarrow> Inl e
             | Inr a \<Rightarrow>
                 Inr (s\<lparr>edgeIndices16Bit := a,
                        eachBucketEdgeIndicesPortion :=
                          (eachBucketEdgeIndicesPortion s)[countBuckets s := toUint32 (countEdgeIndices16Bit s)],
                        countEdgeIndices16Bit := countEdgeIndices16Bit s + length ex\<rparr>))
          else if bitness = 2 then
            (case typedArraySet (edgeIndices32Bit s) (map toUint32 ex) (countEdgeIndices32Bit s) of
               Inl e \<Rightarrow> Inl e
             | Inr a \<Rightarrow>
                 Inr (s\<lparr>edgeIndices32Bit := a,
                        eachBucketEdgeIndicesPortion :=
                          (eachBucketEdgeIndicesPortion s)[countBuckets s := toUint32 (countEdgeIndices32Bit s)],
                        countEdgeIndices32Bit := countEdgeIndices32Bit s + length ex\<rparr>))
          else Inr s)"

definition fillBucketColors :: "GeometryBucket \<Rightarrow> FillState \<Rightarrow> js_error + FillState" where
  "fillBucketColors geometryBucket s =
     (case colorsCompressed geometryBucket of
        None \<Rightarrow> Inr s
      | Some cs \<Rightarrow>
          (case typedArraySet (colors s) (map toUint8 cs) (countColors s) of
             Inl e \<Rightarrow> Inl e
           | Inr a \<Rightarrow> Inr (s\<lparr>colors := a, countColors := countColors s + length cs\<rparr>)))"

definition fillBucketUVs :: "GeometryBucket \<Rightarrow> FillState \<Rightarrow> js_error + FillState" where
  "fillBucketUVs geometryBucket s =
     (case uvsCompressed geometryBucket of
        None \<Rightarrow> Inr s
      | Some uv \<Rightarrow>
          (case typedArraySet (uvs s) uv (countUVs s) of
             Inl e \<Rightarrow> Inl e
           | Inr a \<Rightarrow> Inr (s\<lparr>uvs := a, countUVs := countUVs s + length uv\<rparr>)))"

text \<open>
  The body of the bucket loop. Its first statement reads
  \<^verbatim>\<open>geometryBucket.positionsCompressed.length\<close> with no test of the field.
\<close>

definition fillBucket :: "GeometryBucket \<Rightarrow> FillState \<Rightarrow> js_error + FillState" where
  "fillBucket geometryBucket s =
     (case positionsCompressed geometryBucket of
        None \<Rightarrow> Inl TypeError
      | Some pc \<Rightarrow>
          (let lenBucketPositions = length pc;
               bitness = bucketIndicesBitness lenBucketPositions;
               s1 = s\<lparr>eachBucketPositionsPortion :=
                         (eachBucketPositionsPortion s)[countBuckets s := toUint32 (countPositions s)],
                       eachBucketColorsPortion :=
                         (eachBucketColorsPortion s)[countBuckets s := toUint32 (countColors s)],
                       eachBucketUVsPortion :=
                         (eachBucketUVsPortion s)[countBuckets s := toUint32 (countUVs s)],
                       eachBucketIndicesBitness :=
                         (eachBucketIndicesBitness s)[countBuckets s := toUint8 bitness]\<rparr>
           in case typedArraySet (positions s1) (map toUint16 pc) (countPositions s1) of
                Inl e \<Rightarrow> Inl e
              | Inr a \<Rightarrow>
                  (case fillBucketIndices bitness geometryBucket
                          (s1\<lparr>positions := a, countPositions := countPositions s1 + length pc\<rparr>) of
                     Inl e \<Rightarrow> Inl e
                   | Inr s2 \<Rightarrow>
                       (case fillBucketEdgeIndices bitness geometryBucket s2 of
                          Inl e \<Rightarrow> Inl e
                        | Inr s3 \<Rightarrow>
                            (case fillBucketColors geometryBucket s3 of
                               Inl e \<Rightarrow> Inl e
                             | Inr s4 \<Rightarrow>
                                 (case fillBucketUVs geometryBucket s4 of
                                    Inl e \<Rightarrow> Inl e
                                  | Inr s5 \<Rightarrow>
                                      Inr (s5\<lparr>countBuckets := countBuckets s5 + 1\<rparr>)))))))"

definition fillGeometry :: "Geometry \<Rightarrow> FillState \<Rightarrow> js_error + FillState" where
  "fillGeometry geom s =
     (let primitiveType = primitiveTypeCode (primitive geom);
          s1 = s\<lparr>eachGeometryPrimitiveType :=
                    (eachGeometryPrimitiveType s)[geometryIndex s := undefToUint8 primitiveType],
                  eachGeometryBucketPortion :=
                    (eachGeometryBucketPortion s)[geometryIndex s := toUint32 (countBuckets s)],
                  eachGeometryDecodeMatricesPortion :=
                    (eachGeometryDecodeMatricesPortion s)
                      [geometryIndex s := toUint32 (countDecodeMatrices s)]\<rparr>
      in case typedArraySet (decodeMatrices s1) (positionsDecompressMatrix geom)
                (countDecodeMatrices s1) of
           Inl e \<Rightarrow> Inl e
         | Inr a \<Rightarrow>
             (case foldE fillBucket (geometryBuckets geom)
                     (s1\<lparr>decodeMatrices := a,
                         countDecodeMatrices := countDecodeMatrices s1 + 16\<rparr>) of
                Inl e \<Rightarrow> Inl e
              | Inr s2 \<Rightarrow>
                  Inr (s2\<lparr>geometryIndices :=
                             (geometryIndices s2)(geometry_id geom \<mapsto> geometryIndex s2),
                           eachGeometryId :=
                             arraySet (eachGeometryId s2) (geometryIndex s2) (geometry_id geom),
                           geometryIndex := geometryIndex s2 + 1\<rparr>)))"

subsection \<open>The fill pass: textures and texture sets\<close>

text \<open>\<^verbatim>\<open>v || d\<close> on a number that may be absent: \<open>d\<close> when \<open>v\<close> is absent or 0.\<close>

definition orDefault :: "nat option \<Rightarrow> nat \<Rightarrow> nat" where
  "orDefault v d = (case v of None \<Rightarrow> d | Some n \<Rightarrow> if n = 0 then d else n)"

definition fillTexture :: "Env \<Rightarrow> Texture \<Rightarrow> FillState \<Rightarrow> js_error + FillState" where
  "fillTexture E tex s =
     (case typedArraySet (textureData s) (map toUint8 (imageData tex)) (portionIdx s) of
        Inl e \<Rightarrow> Inl e
      | Inr a \<Rightarrow>
          (let textureAttrIdx = textureIndex s * NUM_TEXTURE_ATTRIBUTES
           in Inr (s\<lparr>textureData := a,
                     eachTextureDataPortion :=
                       (eachTextureDataPortion s)[textureIndex s := toUint32 (portionIdx s)],
                     portionIdx := portionIdx s + length (imageData tex),
                     eachTextureAttributes :=
                       (eachTextureAttributes s)
                         [textureAttrIdx := toUint16 (if compressed tex then 1 else 0),
                          textureAttrIdx + 1 := toUint16 (orDefault (mediaType tex) 0),
                          textureAttrIdx + 2 := toUint16 (width tex),
                          textureAttrIdx + 3 := toUint16 (height tex),
                          textureAttrIdx + 4 :=
                            toUint16 (orDefault (minFilter tex) (LinearMipmapLinearFilter E)),
                          textureAttrIdx + 5 :=
                            toUint16 (orDefault (magFilter tex) (LinearMipmapLinearFilter E)),
                          textureAttrIdx + 6 :=
                            toUint16 (orDefault (wrapS tex) (ClampToEdgeWrapping E)),
                          textureAttrIdx + 7 :=
                            toUint16 (orDefault (wrapT tex) (ClampToEdgeWrapping E)),
                          textureAttrIdx + 8 :=
                            toUint16 (orDefault (wrapR tex) (ClampToEdgeWrapping E))],
                     textureIndices := (textureIndices s)(texture_id tex \<mapsto> textureIndex s),
                     textureIndex := textureIndex s + 1\<rparr>)))"

text \<open>
  \<^verbatim>\<open>t ? textureIndices[t.id] : -1\<close>: the index of the texture in the table, \<^verbatim>\<open>undefined\<close>
  when the table has no entry for its id, and \<open>-1\<close> when there is no texture.
\<close>

definition textureRef :: "(string \<rightharpoonup> nat) \<Rightarrow> Texture option \<Rightarrow> int option" where
  "textureRef tbl t =
     (case t of None \<Rightarrow> Some (- 1) | Some tex \<Rightarrow> map_option int (tbl (texture_id tex)))"

definition fillTextureSet :: "TextureSet \<Rightarrow> FillState \<Rightarrow> FillState" where
  "fillTextureSet texSet s =
     (let i = eachTextureSetTexturesIndex s
      in s\<lparr>eachTextureSetTextures :=
             (eachTextureSetTextures s)
               [i := undefToInt32 (textureRef (textureIndices s) (colorTexture texSet)),
                i + 1 := undefToInt32 (textureRef (textureIndices s) (metallicRoughnessTexture texSet)),
                i + 2 := undefToInt32 (textureRef (textureIndices s) (emissiveTexture texSet)),
                i + 3 := undefToInt32 (textureRef (textureIndices s) (occlusionTexture texSet))],
           eachTextureSetTexturesIndex := i + 4,
           textureSetIndices := (textureSetIndices s)(textureSet_id texSet \<mapsto> textureSetIndex s),
           textureSetIndex := textureSetIndex s + 1\<rparr>)"

subsection \<open>The fill pass: objects and meshes\<close>

text \<open>The key of the origin table: the template literal of the three coordinates.\<close>

definition originHash :: "Env \<Rightarrow> real \<times> real \<times> real \<Rightarrow> string" where
  "originHash E orig =
     (case orig of (x, y, z) \<Rightarrow>
        numberToString E x @ ''-'' @ numberToString E y @ ''-'' @ numberToString E z)"

text \<open>
  The lookup of the origin of a mesh: the offset found in the table, or else the current
  cursor of \<^verbatim>\<open>origins\<close>, where the three coordinates are then written.
\<close>

definition lookupOrigin :: "Env \<Rightarrow> Mesh \<Rightarrow> FillState \<Rightarrow> nat \<times> FillState" where
  "lookupOrigin E mesh s =
     (case originLookup s (originHash E (origin mesh)) of
        Some originLookupIndex \<Rightarrow> (originLookupIndex, s)
      | None \<Rightarrow>
          (case origin mesh of (x, y, z) \<Rightarrow>
             (originsIndex s,
              s\<lparr>originLookup := (originLookup s)(originHash E (origin mesh) \<mapsto> originsIndex s),
                origins := (origins s)
                  [originsIndex s := x, originsIndex s + 1 := y, originsIndex s + 2 := z],
                originsIndex := originsIndex s + 3\<rparr>)))"

definition textureSetRef :: "(string \<rightharpoonup> nat) \<Rightarrow> TextureSet option \<Rightarrow> int option" where
  "textureSetRef tbl t =
     (case t of None \<Rightarrow> Some (- 1) | Some texSet \<Rightarrow> map_option int (tbl (textureSet_id texSet)))"

definition fillMesh :: "Env \<Rightarrow> Mesh \<Rightarrow> FillState \<Rightarrow> js_error + FillState" where
  "fillMesh E mesh s =
     (let s1 = s\<lparr>eachMeshId := arraySet (eachMeshId s) (countMeshes s) (mesh_id mesh),
                  eachMeshGeometriesPortion :=
                    (eachMeshGeometriesPortion s)
                      [countMeshes s := undefToUint32 (geometryIndices s (geometry_id (geometry mesh)))],
                  eachMeshMatricesPortion :=
                    (eachMeshMatricesPortion s)[countMeshes s := toUint32 (matricesIndex s)]\<rparr>
      in case typedArraySet (matrices s1) (matrix mesh) (matricesIndex s1) of
           Inl e \<Rightarrow> Inl e
         | Inr a \<Rightarrow>
             (case lookupOrigin E mesh (s1\<lparr>matrices := a, matricesIndex := matricesIndex s1 + 16\<rparr>) of
                (originLookupIndex, s2) \<Rightarrow>
                  (let i = eachMeshMaterialAttributesIndex s2
                   in Inr (s2\<lparr>eachMeshOriginsPortion :=
                                (eachMeshOriginsPortion s2)[countMeshes s2 := toUint32 originLookupIndex],
                              eachMeshTextureSet :=
                                (eachMeshTextureSet s2)
                                  [countMeshes s2 :=
                                     undefToInt32 (textureSetRef (textureSetIndices s2) (textureSet mesh))],
                              eachMeshMaterialAttributes :=
                                (eachMeshMaterialAttributes s2)
                                  [i := numToUint8 (fst (color mesh) * 255),
                                   i + 1 := numToUint8 (fst (snd (color mesh)) * 255),
                                   i + 2 := numToUint8 (snd (snd (color mesh)) * 255),
                                   i + 3 := numToUint8 (opacity mesh * 255),
                                   i + 4 := numToUint8 (metallic mesh * 255),
                                   i + 5 := numToUint8 (roughness mesh * 255)],
                              eachMeshMaterialAttributesIndex := i + 6,
                              countMeshes := countMeshes s2 + 1\<rparr>))))"

definition fillObject :: "Env \<Rightarrow> SceneObject \<Rightarrow> FillState \<Rightarrow> js_error + FillState" where
  "fillObject E object s =
     (case foldE (fillMesh E) (object_meshes object)
             (s\<lparr>eachObjectId := arraySet (eachObjectId s) (objectIndex s) (object_id object),
                eachObjectMeshesPortion :=
                  (eachObjectMeshesPortion s)[objectIndex s := toUint32 (countMeshes s)]\<rparr>) of
        Inl e \<Rightarrow> Inl e
      | Inr s' \<Rightarrow> Inr (s'\<lparr>objectIndex := objectIndex s' + 1\<rparr>))"

subsection \<open>The encoder\<close>

text \<open>
  The fill pass on the allocated arrays, in the order of the source: geometries, textures,
  texture sets, objects. It returns the final state, cursors included.
\<close>

definition fillPass :: "Env \<Rightarrow> SceneModel \<Rightarrow> js_error + FillState" where
  "fillPass E sceneModel =
     (case foldE fillGeometry (map snd (geometries sceneModel))
             (allocate sceneModel (sizePrePass sceneModel)) of
        Inl e \<Rightarrow> Inl e
      | Inr s1 \<Rightarrow>
          (case foldE (fillTexture E) (map snd (textures sceneModel)) s1 of
             Inl e \<Rightarrow> Inl e
           | Inr s2 \<Rightarrow>
               foldE (fillObject E) (map snd (objects sceneModel))
                 (fold fillTextureSet (map snd (textureSets sceneModel)) s2)))"

definition modelToDTX :: "Env \<Rightarrow> SceneModel \<Rightarrow> js_error + DTXData" where
  "modelToDTX E sceneModel =
     (case fillPass E sceneModel of
        Inl e \<Rightarrow> Inl e
      | Inr s \<Rightarrow> Inr (DTXData.truncate s))"

subsection \<open>Example scenes\<close>

text \<open>
  Concrete inputs on which the theorems below are instantiated. The two constants have
  the values of \<^verbatim>\<open>@xeokit/constants\<close>; the conversion of numbers to strings is given on
  the four coordinates the examples use.
\<close>

definition exampleEnv :: Env where
  "exampleEnv =
     \<lparr>LinearMipmapLinearFilter = 1008, ClampToEdgeWrapping = 1001,
      numberToString =
        (\<lambda>x. if x = 1 then ''1'' else if x = 2 then ''2'' else if x = 3 then ''3''
              else ''3.0000001'')\<rparr>"

definition identityMatrix :: "real list" where
  "identityMatrix = [1, 0, 0, 0, 0, 1, 0, 0, 0, 0, 1, 0, 0, 0, 0, 1]"

text \<open>A triangle: three vertices, with indices, edge indices and UVs, without colours.\<close>

definition triangleBucket :: GeometryBucket where
  "triangleBucket =
     \<lparr>positionsCompressed = Some [0, 0, 0, 65535, 0, 0, 0, 65535, 0],
      indices = Some [0, 1, 2],
      edgeIndices = Some [0, 1, 1, 2, 2, 0],
      colorsCompressed = None,
      uvsCompressed = Some [0, 0, 1, 0, 0, 1]\<rparr>"

definition triangleGeometry :: Geometry where
  "triangleGeometry =
     \<lparr>geometry_id = ''geometry1'', primitive = TrianglesPrimitive,
      positionsDecompressMatrix = identityMatrix, geometryBuckets = [triangleBucket]\<rparr>"

definition texture1 :: Texture where
  "texture1 =
     \<lparr>texture_id = ''texture1'', imageData = [137, 80, 78, 71], compressed = False,
      mediaType = None, width = 2, height = 2, minFilter = None, magFilter = None,
      wrapS = None, wrapT = None, wrapR = None\<rparr>"

definition textureSet1 :: TextureSet where
  "textureSet1 =
     \<lparr>textureSet_id = ''textureSet1'', colorTexture = Some texture1,
      metallicRoughnessTexture = None, emissiveTexture = None, occlusionTexture = None\<rparr>"

definition mesh1 :: Mesh where
  "mesh1 =
     \<lparr>mesh_id = ''mesh1'', geometry = triangleGeometry, matrix = identityMatrix,
      origin = (1, 2, 3), textureSet = Some textureSet1, color = (1, 1 / 2, 0),
      opacity = 12 / 10, metallic = 0, roughness = 1\<rparr>"

definition mesh2 :: Mesh where
  "mesh2 =
     \<lparr>mesh_id = ''mesh2'', geometry = triangleGeometry, matrix = identityMatrix,
      origin = (1, 2, 3), textureSet = None, color = (0, 0, 1),
      opacity = 1, metallic = 1 / 2, roughness = 1 / 2\<rparr>"

definition mesh3 :: Mesh where
  "mesh3 =
     \<lparr>mesh_id = ''mesh3'', geometry = triangleGeometry, matrix = identityMatrix,
      origin = (1, 2, 30000001 / 10000000), textureSet = None, color = (0, 1, 0),
      opacity = 1, metallic = 0, roughness = 0\<rparr>"

text \<open>One geometry, one texture, one texture set, three meshes in two objects.\<close>

definition exampleScene :: SceneModel where
  "exampleScene =
     \<lparr>geometries = [(''geometry1'', triangleGeometry)],
      textures = [(''texture1'', texture1)],
      textureSets = [(''textureSet1'', textureSet1)],
      meshes = [(''mesh1'', mesh1), (''mesh2'', mesh2), (''mesh3'', mesh3)],
      objects =
        [(''object1'', \<lparr>object_id = ''object1'', object_meshes = [mesh1, mesh2]\<rparr>),
         (''object2'', \<lparr>object_id = ''object2'', object_meshes = [mesh3]\<rparr>)]\<rparr>"

text \<open>The same meshes, of which one is used by two objects and two by none.\<close>

definition sharedMeshScene :: SceneModel where
  "sharedMeshScene =
     \<lparr>geometries = [(''geometry1'', triangleGeometry)],
      textures = [(''texture1'', texture1)],
      textureSets = [(''textureSet1'', textureSet1)],
      meshes = [(''mesh1'', mesh1), (''mesh2'', mesh2), (''mesh3'', mesh3)],
      objects =
        [(''object1'', \<lparr>object_id = ''object1'', object_meshes = [mesh1]\<rparr>),
         (''object2'', \<lparr>object_id = ''object2'', object_meshes = [mesh1]\<rparr>)]\<rparr>"

text \<open>A geometry whose primitive is none of the five, with no bucket.\<close>

definition unknownPrimitiveScene :: SceneModel where
  "unknownPrimitiveScene =
     \<lparr>geometries =
        [(''geometry1'',
          \<lparr>geometry_id = ''geometry1'', primitive = OtherPrimitive 99,
           positionsDecompressMatrix = identityMatrix, geometryBuckets = []\<rparr>)],
      textures = [], textureSets = [], meshes = [], objects = []\<rparr>"

text \<open>A geometry with one bucket that has no positions.\<close>

definition emptyBucket :: GeometryBucket where
  "emptyBucket =
     \<lparr>positionsCompressed = None, indices = None, edgeIndices = None,
      colorsCompressed = None, uvsCompressed = None\<rparr>"

definition emptyBucketScene :: SceneModel where
  "emptyBucketScene =
     \<lparr>geometries =
        [(''geometry1'',
          \<lparr>geometry_id = ''geometry1'', primitive = TrianglesPrimitive,
           positionsDecompressMatrix = identityMatrix, geometryBuckets = [emptyBucket]\<rparr>)],
      textures = [], textureSets = [], meshes = [], objects = []\<rparr>"

text \<open>
  Buckets of a given number of vertices, each with one triangle and one edge, and a scene
  with one bucket at each side of the two limits of the tiers of the indices.
\<close>

definition tierBucket :: "nat \<Rightarrow> GeometryBucket" where
  "tierBucket numVertices =
     \<lparr>positionsCompressed = Some (replicate (3 * numVertices) 0),
      indices = Some [0, 1, 2],
      edgeIndices = Some [0, 1],
      colorsCompressed = None,
      uvsCompressed = None\<rparr>"

definition tierScene :: SceneModel where
  "tierScene =
     \<lparr>geometries =
        [(''geometry1'',
          \<lparr>geometry_id = ''geometry1'', primitive = TrianglesPrimitive,
           positionsDecompressMatrix = identityMatrix,
           geometryBuckets = [tierBucket 256, tierBucket 257, tierBucket 65536, tierBucket 65537]\<rparr>)],
      textures = [], textureSets = [], meshes = [], objects = []\<rparr>"


subsection \<open>Auxiliary notions\<close>

text \<open>
  Two abbreviations used in the statements below: the length of an optional array (0 when
  it is absent), and the result of a \<^verbatim>\<open>set\<close> of an optional source that fits (the target
  itself when the source is absent).
\<close>

definition optLen :: "'a list option \<Rightarrow> nat" where
  "optLen v = (case v of None \<Rightarrow> 0 | Some xs \<Rightarrow> length xs)"

definition splice :: "'a list \<Rightarrow> 'a list option \<Rightarrow> nat \<Rightarrow> 'a list" where
  "splice target source offs =
     (case source of
        None \<Rightarrow> target
      | Some src \<Rightarrow> take offs target @ src @ drop (offs + length src) target)"

text \<open>
  The state after the body of the bucket loop has run to its end on a bucket, as one
  record update (\<open>fillBucket_eq\<close> below proves that it is).
\<close>

definition bucketEffect :: "GeometryBucket \<Rightarrow> FillState \<Rightarrow> FillState" where
  "bucketEffect b s =
     (let t = bucketIndicesBitness (optLen (positionsCompressed b)) in
      s\<lparr>positions := splice (positions s) (map_option (map toUint16) (positionsCompressed b)) (countPositions s),
        colors := splice (colors s) (map_option (map toUint8) (colorsCompressed b)) (countColors s),
        uvs := splice (uvs s) (uvsCompressed b) (countUVs s),
        indices8Bit :=
          (if t = 0 then splice (indices8Bit s) (map_option (map toUint8) (indices b))
             (countIndices8Bit s) else indices8Bit s),
        indices16Bit :=
          (if t = 1 then splice (indices16Bit s) (map_option (map toUint16) (indices b))
             (countIndices16Bit s) else indices16Bit s),
        indices32Bit :=
          (if t = 2 then splice (indices32Bit s) (map_option (map toUint32) (indices b))
             (countIndices32Bit s) else indices32Bit s),
        edgeIndices8Bit :=
          (if t = 0 then splice (edgeIndices8Bit s) (map_option (map toUint8) (edgeIndices b))
             (countEdgeIndices8Bit s) else edgeIndices8Bit s),
        edgeIndices16Bit :=
          (if t = 1 then splice (edgeIndices16Bit s) (map_option (map toUint16) (edgeIndices b))
             (countEdgeIndices16Bit s) else edgeIndices16Bit s),
        edgeIndices32Bit :=
          (if t = 2 then splice (edgeIndices32Bit s) (map_option (map toUint32) (edgeIndices b))
             (countEdgeIndices32Bit s) else edgeIndices32Bit s),
        eachBucketPositionsPortion :=
          (eachBucketPositionsPortion s)[countBuckets s := toUint32 (countPositions s)],
        eachBucketColorsPortion :=
          (eachBucketColorsPortion s)[countBuckets s := toUint32 (countColors s)],
        eachBucketUVsPortion :=
          (eachBucketUVsPortion s)[countBuckets s := toUint32 (countUVs s)],
        eachBucketIndicesPortion :=
          (if indices b = None then eachBucketIndicesPortion s
           else (eachBucketIndicesPortion s)
             [countBuckets s := toUint32 (if t = 0 then countIndices8Bit s
                else if t = 1 then countIndices16Bit s else countIndices32Bit s)]),
        eachBucketEdgeIndicesPortion :=
          (if edgeIndices b = None then eachBucketEdgeIndicesPortion s
           else (eachBucketEdgeIndicesPortion s)
             [countBuckets s := toUint32 (if t = 0 then countEdgeIndices8Bit s
                else if t = 1 then countEdgeIndices16Bit s else countEdgeIndices32Bit s)]),
        eachBucketIndicesBitness := (eachBucketIndicesBitness s)[countBuckets s := toUint8 t],
        countBuckets := countBuckets s + 1,
        countPositions := countPositions s + optLen (positionsCompressed b),
        countColors := countColors s + optLen (colorsCompressed b),
        countUVs := countUVs s + optLen (uvsCompressed b),
        countIndices8Bit := countIndices8Bit s + (if t = 0 then optLen (indices b) else 0),
        countIndices16Bit := countIndices16Bit s + (if t = 1 then optLen (indices b) else 0),
        countIndices32Bit := countIndices32Bit s + (if t = 2 then optLen (indices b) else 0),
        countEdgeIndices8Bit := countEdgeIndices8Bit s + (if t = 0 then optLen (edgeIndices b) else 0),
        countEdgeIndices16Bit := countEdgeIndices16Bit s + (if t = 1 then optLen (edgeIndices b) else 0),
        countEdgeIndices32Bit := countEdgeIndices32Bit s + (if t = 2 then optLen (edgeIndices b) else 0)\<rparr>)"

text \<open>
  The state of the fill pass in four parts, one for each loop: the fields the loop over
  the geometries works on, and likewise for the textures, the texture sets and the
  objects with their meshes. Each loop leaves the parts of the others alone.
\<close>

definition geometryPart where
  "geometryPart s =
     ((positions s, colors s, uvs s, indices8Bit s, indices16Bit s, indices32Bit s,
       edgeIndices8Bit s, edgeIndices16Bit s, edgeIndices32Bit s, decodeMatrices s),
      (eachBucketPositionsPortion s, eachBucketColorsPortion s, eachBucketUVsPortion s,
       eachBucketIndicesPortion s, eachBucketEdgeIndicesPortion s, eachBucketIndicesBitness s,
       eachGeometryPrimitiveType s, eachGeometryBucketPortion s,
       eachGeometryDecodeMatricesPortion s, eachGeometryId s),
      (countBuckets s, countPositions s, countColors s, countUVs s, countIndices8Bit s,
       countIndices16Bit s, countIndices32Bit s, countEdgeIndices8Bit s,
       countEdgeIndices16Bit s, countEdgeIndices32Bit s, countDecodeMatrices s,
       geometryIndex s, geometryIndices s))"

definition texturePart where
  "texturePart s =
     (textureData s, eachTextureDataPortion s, eachTextureAttributes s, textureIndex s,
      portionIdx s, textureIndices s)"

definition textureSetPart where
  "textureSetPart s =
     (eachTextureSetTextures s, textureSetIndex s, eachTextureSetTexturesIndex s,
      textureSetIndices s)"

definition meshPart where
  "meshPart s =
     ((matrices s, origins s, eachMeshGeometriesPortion s, eachMeshMatricesPortion s,
       eachMeshOriginsPortion s, eachMeshTextureSet s, eachMeshMaterialAttributes s,
       eachMeshId s, eachObjectId s, eachObjectMeshesPortion s),
      (eachMeshMaterialAttributesIndex s, matricesIndex s, originsIndex s, countMeshes s,
       originLookup s, objectIndex s))"

text \<open>What the bucket loop leaves alone: the fields of the geometries and the other parts.\<close>

definition outsideBuckets where
  "outsideBuckets s =
     ((eachGeometryPrimitiveType s, eachGeometryBucketPortion s,
       eachGeometryDecodeMatricesPortion s, decodeMatrices s, countDecodeMatrices s,
       geometryIndex s, geometryIndices s, eachGeometryId s),
      texturePart s, textureSetPart s, meshPart s)"

text \<open>
  The table from ids to indices that a loop builds with \<^verbatim>\<open>table[x.id] = index\<close> over a
  list: every id of the list is mapped to the position where it occurs last.
\<close>

definition idTable :: "string list \<Rightarrow> (string \<rightharpoonup> nat)" where
  "idTable ids = map_of (rev (zip ids [0..<length ids]))"

text \<open>The four slots of a texture set, as they are stored with a given table of textures.\<close>

definition textureSetSlots :: "(string \<rightharpoonup> nat) \<Rightarrow> TextureSet \<Rightarrow> int list" where
  "textureSetSlots tbl texSet =
     [undefToInt32 (textureRef tbl (colorTexture texSet)),
      undefToInt32 (textureRef tbl (metallicRoughnessTexture texSet)),
      undefToInt32 (textureRef tbl (emissiveTexture texSet)),
      undefToInt32 (textureRef tbl (occlusionTexture texSet))]"

text \<open>
  The six elements stored for a mesh in \<^verbatim>\<open>eachMeshMaterialAttributes\<close>, and the list of the
  meshes of all objects in the order in which the fill pass meets them.
\<close>

definition meshMaterialAttributes :: "Mesh \<Rightarrow> nat list" where
  "meshMaterialAttributes mesh =
     [numToUint8 (fst (color mesh) * 255), numToUint8 (fst (snd (color mesh)) * 255),
      numToUint8 (snd (snd (color mesh)) * 255), numToUint8 (opacity mesh * 255),
      numToUint8 (metallic mesh * 255), numToUint8 (roughness mesh * 255)]"

definition meshReferences :: "SceneModel \<Rightarrow> Mesh list" where
  "meshReferences sceneModel = concat (map object_meshes (map snd (objects sceneModel)))"

text \<open>
  What the strings have in common that ECMAScript's conversion of a number to a string
  produces (\<^verbatim>\<open>"1"\<close>, \<^verbatim>\<open>"-2.5"\<close>, \<^verbatim>\<open>"3.0000001"\<close>, \<^verbatim>\<open>"1e-7"\<close>, \<^verbatim>\<open>"-1.5e+21"\<close>, \<^verbatim>\<open>"NaN"\<close>,
  \<^verbatim>\<open>"-Infinity"\<close>): they are not empty, a minus sign stands only at the start or right
  behind the \<^verbatim>\<open>e\<close> of an exponent, and the last character is not \<^verbatim>\<open>e\<close>.
  \<open>minusOnlyAfterE p s\<close> checks the characters \<open>s\<close> that follow a character \<open>p\<close>.
\<close>

fun minusOnlyAfterE :: "char \<Rightarrow> string \<Rightarrow> bool" where
  "minusOnlyAfterE p [] = (p \<noteq> CHR ''e'')"
| "minusOnlyAfterE p (c # s) = ((c = CHR ''-'' \<longrightarrow> p = CHR ''e'') \<and> minusOnlyAfterE c s)"

definition numberFormat :: "string \<Rightarrow> bool" where
  "numberFormat s = (case s of [] \<Rightarrow> False | c # r \<Rightarrow> minusOnlyAfterE c r)"

text \<open>
  The coordinates of the origins of the meshes that the objects of a model use, and the
  condition on the conversion of numbers to strings under which the key of the origin table
  identifies the origin: on these coordinates the conversion produces strings of the format
  above, different strings for different numbers.
\<close>

definition originCoordinates :: "SceneModel \<Rightarrow> real set" where
  "originCoordinates sceneModel =
     (\<Union>mesh \<in> set (meshReferences sceneModel).
        {fst (origin mesh), fst (snd (origin mesh)), snd (snd (origin mesh))})"

definition faithfulNumberToString :: "Env \<Rightarrow> real set \<Rightarrow> bool" where
  "faithfulNumberToString E C \<longleftrightarrow>
     (\<forall>a \<in> C. numberFormat (numberToString E a)) \<and>
     (\<forall>a \<in> C. \<forall>b \<in> C. numberToString E a = numberToString E b \<longrightarrow> a = b)"

text \<open>
  The elements of a list that are the first with their key, in the order of the list: the
  origins that the origin table meets for the first time.
\<close>

definition firstsBy :: "('a \<Rightarrow> 'k) \<Rightarrow> 'a list \<Rightarrow> 'a list" where
  "firstsBy key xs = fold (\<lambda>x acc. if key x \<in> key ` set acc then acc else acc @ [x]) xs []"

text \<open>The key under which the origin table files a mesh.\<close>

definition meshOriginKey :: "Env \<Rightarrow> Mesh \<Rightarrow> string" where
  "meshOriginKey E mesh = originHash E (origin mesh)"

text \<open>
  The three tiers of the indices side by side: the arrays, their cursors, the lengths that
  the pre-pass counts, and the conversion that a store into the array of a tier applies.
  Tier 0 is the 8-bit tier, tier 1 the 16-bit tier, tier 2 the 32-bit tier.
\<close>

definition indexArrays :: "FillState \<Rightarrow> nat list list" where
  "indexArrays s = [indices8Bit s, indices16Bit s, indices32Bit s]"

definition indexCursors :: "FillState \<Rightarrow> nat list" where
  "indexCursors s = [countIndices8Bit s, countIndices16Bit s, countIndices32Bit s]"

definition edgeIndexArrays :: "FillState \<Rightarrow> nat list list" where
  "edgeIndexArrays s = [edgeIndices8Bit s, edgeIndices16Bit s, edgeIndices32Bit s]"

definition edgeIndexCursors :: "FillState \<Rightarrow> nat list" where
  "edgeIndexCursors s = [countEdgeIndices8Bit s, countEdgeIndices16Bit s, countEdgeIndices32Bit s]"

definition indexLengths :: "Sizes \<Rightarrow> nat list" where
  "indexLengths z = [lenIndices8Bit z, lenIndices16Bit z, lenIndices32Bit z]"

definition edgeIndexLengths :: "Sizes \<Rightarrow> nat list" where
  "edgeIndexLengths z = [lenEdgeIndices8Bit z, lenEdgeIndices16Bit z, lenEdgeIndices32Bit z]"

definition tierStore :: "nat \<Rightarrow> nat \<Rightarrow> nat" where
  "tierStore k = [toUint8, toUint16, toUint32] ! k"

text \<open>
  A step from \<open>s\<close> to \<open>s'\<close> of the fill pass has routed the bucket \<open>b\<close> to tier \<open>k\<close>: the
  indices of the bucket stand in the array of the tier at its cursor, which has advanced by
  their number, the arrays and cursors of the other two tiers are as before, the same holds
  of the edge indices, and the tag of the bucket is \<open>k\<close>. Likewise for a step from \<open>z\<close> to
  \<open>z'\<close> of the pre-pass.
\<close>

definition routedToTier :: "nat \<Rightarrow> GeometryBucket \<Rightarrow> FillState \<Rightarrow> FillState \<Rightarrow> bool" where
  "routedToTier k b s s' \<longleftrightarrow>
     indexArrays s' =
       (indexArrays s)[k := splice (indexArrays s ! k) (map_option (map (tierStore k)) (indices b))
                               (indexCursors s ! k)] \<and>
     indexCursors s' = (indexCursors s)[k := indexCursors s ! k + optLen (indices b)] \<and>
     edgeIndexArrays s' =
       (edgeIndexArrays s)[k := splice (edgeIndexArrays s ! k)
                                   (map_option (map (tierStore k)) (edgeIndices b))
                                   (edgeIndexCursors s ! k)] \<and>
     edgeIndexCursors s' =
       (edgeIndexCursors s)[k := edgeIndexCursors s ! k + optLen (edgeIndices b)] \<and>
     eachBucketIndicesBitness s' = (eachBucketIndicesBitness s)[countBuckets s := k]"

definition sizedInTier :: "nat \<Rightarrow> GeometryBucket \<Rightarrow> Sizes \<Rightarrow> Sizes \<Rightarrow> bool" where
  "sizedInTier k b z z' \<longleftrightarrow>
     indexLengths z' = (indexLengths z)[k := indexLengths z ! k + optLen (indices b)] \<and>
     edgeIndexLengths z' =
       (edgeIndexLengths z)[k := edgeIndexLengths z ! k + optLen (edgeIndices b)]"

text \<open>
  What a bucket contributes to each array of the geometry data, after the conversion of the
  store: nothing where the bucket has no such array, and for the indices and edge indices
  nothing to the tiers that the bucket is not routed to.
\<close>

definition optList :: "'a list option \<Rightarrow> 'a list" where
  "optList v = (case v of None \<Rightarrow> [] | Some xs \<Rightarrow> xs)"

definition bucketTier :: "GeometryBucket \<Rightarrow> nat" where
  "bucketTier b = bucketIndicesBitness (optLen (positionsCompressed b))"

definition positionsData :: "GeometryBucket \<Rightarrow> nat list" where
  "positionsData b = map toUint16 (optList (positionsCompressed b))"

definition uvsData :: "GeometryBucket \<Rightarrow> real list" where
  "uvsData b = optList (uvsCompressed b)"

definition indicesData :: "nat \<Rightarrow> GeometryBucket \<Rightarrow> nat list" where
  "indicesData k b = (if bucketTier b = k then map (tierStore k) (optList (indices b)) else [])"

definition edgeIndicesData :: "nat \<Rightarrow> GeometryBucket \<Rightarrow> nat list" where
  "edgeIndicesData k b =
     (if bucketTier b = k then map (tierStore k) (optList (edgeIndices b)) else [])"

definition allBuckets :: "SceneModel \<Rightarrow> GeometryBucket list" where
  "allBuckets sceneModel = concat (map geometryBuckets (map snd (geometries sceneModel)))"

subsection \<open>Notions of the specification\<close>



section \<open>Evaluation on concrete scenes\<close>

lemma replicate_numeral_Cons: "replicate (numeral k) x = x # replicate (pred_numeral k) x"
  by (simp add: numeral_eq_Suc)

lemma list_update_Cons_numeral: "(x # xs)[numeral k := y] = x # xs[pred_numeral k := y]"
  by (simp add: numeral_eq_Suc)

lemmas encoder_defs =
  fillPass_def allocate_def sizePrePass_def sizeGeometry_def sizeBucket_def
  sizeTexture_def fillGeometry_def fillBucket_def fillBucketIndices_def fillBucketEdgeIndices_def
  fillBucketColors_def fillBucketUVs_def bucketIndicesBitness_def primitiveTypeCode_def
  fillTexture_def orDefault_def textureRef_def fillTextureSet_def originHash_def lookupOrigin_def
  textureSetRef_def fillMesh_def fillObject_def typedArraySet_def arraySet_def
  NUM_MATERIAL_ATTRIBUTES_def NUM_TEXTURE_ATTRIBUTES_def numToUint8_def truncate_num_def
  toUint8_def toUint16_def toUint32_def toInt32_def undefToUint8_def undefToUint32_def
  undefToInt32_def Let_def replicate_numeral_Cons list_update_Cons_numeral

lemmas scene_defs =
  exampleEnv_def identityMatrix_def triangleBucket_def triangleGeometry_def texture1_def
  textureSet1_def mesh1_def mesh2_def mesh3_def exampleScene_def sharedMeshScene_def
  unknownPrimitiveScene_def emptyBucket_def emptyBucketScene_def tierBucket_def tierScene_def

section \<open>Loops and steps\<close>

lemma typedArraySet_Inr:
  "typedArraySet t src off = Inr a \<longleftrightarrow>
     length src + off \<le> length t \<and> a = take off t @ src @ drop (off + length src) t"
  by (auto simp: typedArraySet_def)

lemma typedArraySet_length: "typedArraySet t src off = Inr a \<Longrightarrow> length a = length t"
  by (auto simp: typedArraySet_Inr)

lemma foldE_Cons_Inr:
  "foldE f (x # xs) s = Inr s' \<longleftrightarrow> (\<exists>s1. f x s = Inr s1 \<and> foldE f xs s1 = Inr s')"
  by (auto split: sum.splits)

lemma foldE_append_Inr:
  "foldE f (xs @ ys) s = Inr s' \<longleftrightarrow> (\<exists>s1. foldE f xs s = Inr s1 \<and> foldE f ys s1 = Inr s')"
  by (induction xs arbitrary: s) (auto split: sum.splits)

lemma foldE_preserves:
  assumes "foldE f xs s = Inr s'"
    and "\<And>x t t'. x \<in> set xs \<Longrightarrow> f x t = Inr t' \<Longrightarrow> P t' = P t"
  shows "P s' = P s"
  using assms
proof (induction xs arbitrary: s)
  case Nil
  then show ?case by simp
next
  case (Cons x xs)
  from Cons.prems(1) obtain s1 where s1: "f x s = Inr s1" "foldE f xs s1 = Inr s'"
    by (auto split: sum.splits)
  have "P s1 = P s" by (rule Cons.prems(2) [of x s s1]) (simp_all add: s1(1))
  moreover have "P s' = P s1"
  proof (rule Cons.IH [OF s1(2)])
    fix y t t'
    assume "y \<in> set xs" "f y t = Inr t'"
    then show "P t' = P t" by (intro Cons.prems(2) [of y t t']) simp_all
  qed
  ultimately show ?case by (rule trans [rotated])
qed

lemma foldE_prefix_induct:
  assumes "foldE f xs s = Inr s'" and "I ys s"
    and "\<And>zs x t t'. I zs t \<Longrightarrow> x \<in> set xs \<Longrightarrow> f x t = Inr t' \<Longrightarrow> I (zs @ [x]) t'"
  shows "I (ys @ xs) s'"
  using assms
proof (induction xs arbitrary: ys s)
  case Nil
  then show ?case by simp
next
  case (Cons x xs)
  from Cons.prems(1) obtain s1 where s1: "f x s = Inr s1" "foldE f xs s1 = Inr s'"
    by (auto split: sum.splits)
  have "I (ys @ [x]) s1" by (rule Cons.prems(3) [OF Cons.prems(2) _ s1(1)]) simp
  then have "I ((ys @ [x]) @ xs) s'"
  proof (rule Cons.IH [OF s1(2)])
    fix zs y t t'
    assume "I zs t" "y \<in> set xs" "f y t = Inr t'"
    then show "I (zs @ [y]) t'" by (intro Cons.prems(3) [of zs t y t']) simp_all
  qed
  then show ?case by simp
qed

lemma foldE_all_induct:
  assumes "foldE f xs s = Inr s'" and "I [] s"
    and step: "\<And>zs x ws t t'. xs = zs @ x # ws \<Longrightarrow> I zs t \<Longrightarrow> f x t = Inr t' \<Longrightarrow> I (zs @ [x]) t'"
  shows "I xs s'"
proof -
  have "foldE f rest t = Inr s' \<Longrightarrow> xs = pre @ rest \<Longrightarrow> I pre t \<Longrightarrow> I xs s'" for rest pre t
  proof (induction rest arbitrary: pre t)
    case Nil
    then show ?case by simp
  next
    case (Cons x rest)
    from Cons.prems(1) obtain t1 where t1: "f x t = Inr t1" "foldE f rest t1 = Inr s'"
      by (auto split: sum.splits)
    have "I (pre @ [x]) t1" by (rule step [OF Cons.prems(2) Cons.prems(3) t1(1)])
    moreover have "xs = (pre @ [x]) @ rest" using Cons.prems(2) by simp
    ultimately show ?case using Cons.IH [OF t1(2)] by blast
  qed
  from this [OF assms(1), of "[]"] assms(2) show ?thesis by simp
qed

lemma fold_all_induct:
  assumes "I [] s"
    and step: "\<And>zs x ws t. xs = zs @ x # ws \<Longrightarrow> I zs t \<Longrightarrow> I (zs @ [x]) (f x t)"
  shows "I xs (fold f xs s)"
proof -
  have "xs = pre @ rest \<Longrightarrow> I pre t \<Longrightarrow> I xs (fold f rest t)" for rest pre t
  proof (induction rest arbitrary: pre t)
    case Nil
    then show ?case by simp
  next
    case (Cons x rest)
    have "I (pre @ [x]) (f x t)" by (rule step [OF Cons.prems(1) Cons.prems(2)])
    moreover have "xs = (pre @ [x]) @ rest" using Cons.prems(1) by simp
    ultimately have "I xs (fold f rest (f x t))" by (rule Cons.IH [rotated])
    then show ?case by simp
  qed
  from this [of "[]" xs s] assms(1) show ?thesis by simp
qed

subsection \<open>The steps of the bucket loop\<close>

text \<open>What a completed step has checked and done, case by case.\<close>

lemma fillBucketIndicesE:
  assumes "fillBucketIndices t b s = Inr s'"
  obtains "indices b = None" "s' = s"
  | ix where "indices b = Some ix" "t = 0" "length ix + countIndices8Bit s \<le> length (indices8Bit s)"
      "s' = s\<lparr>indices8Bit := take (countIndices8Bit s) (indices8Bit s) @ map toUint8 ix @
                  drop (countIndices8Bit s + length ix) (indices8Bit s),
                eachBucketIndicesPortion :=
                  (eachBucketIndicesPortion s)[countBuckets s := toUint32 (countIndices8Bit s)],
                countIndices8Bit := countIndices8Bit s + length ix\<rparr>"
  | ix where "indices b = Some ix" "t = 1" "length ix + countIndices16Bit s \<le> length (indices16Bit s)"
      "s' = s\<lparr>indices16Bit := take (countIndices16Bit s) (indices16Bit s) @ map toUint16 ix @
                  drop (countIndices16Bit s + length ix) (indices16Bit s),
                eachBucketIndicesPortion :=
                  (eachBucketIndicesPortion s)[countBuckets s := toUint32 (countIndices16Bit s)],
                countIndices16Bit := countIndices16Bit s + length ix\<rparr>"
  | ix where "indices b = Some ix" "t = 2" "length ix + countIndices32Bit s \<le> length (indices32Bit s)"
      "s' = s\<lparr>indices32Bit := take (countIndices32Bit s) (indices32Bit s) @ map toUint32 ix @
                  drop (countIndices32Bit s + length ix) (indices32Bit s),
                eachBucketIndicesPortion :=
                  (eachBucketIndicesPortion s)[countBuckets s := toUint32 (countIndices32Bit s)],
                countIndices32Bit := countIndices32Bit s + length ix\<rparr>"
  | ix where "indices b = Some ix" "2 < t" "s' = s"
proof (cases "indices b")
  case None
  then show ?thesis using assms that(1) by (simp add: fillBucketIndices_def)
next
  case (Some ix)
  consider "t = 0" | "t = 1" | "t = 2" | "2 < t" by arith
  then show ?thesis
  proof cases
    case 1
    then show ?thesis using assms Some that(2) [of ix]
      by (simp add: fillBucketIndices_def typedArraySet_Inr split: sum.splits)
  next
    case 2
    then show ?thesis using assms Some that(3) [of ix]
      by (simp add: fillBucketIndices_def typedArraySet_Inr split: sum.splits)
  next
    case 3
    then show ?thesis using assms Some that(4) [of ix]
      by (simp add: fillBucketIndices_def typedArraySet_Inr split: sum.splits)
  next
    case 4
    then show ?thesis using assms Some that(5) [of ix]
      by (simp add: fillBucketIndices_def)
  qed
qed

lemma fillBucketEdgeIndicesE:
  assumes "fillBucketEdgeIndices t b s = Inr s'"
  obtains "edgeIndices b = None" "s' = s"
  | ex where "edgeIndices b = Some ex" "t = 0"
      "length ex + countEdgeIndices8Bit s \<le> length (edgeIndices8Bit s)"
      "s' = s\<lparr>edgeIndices8Bit := take (countEdgeIndices8Bit s) (edgeIndices8Bit s) @ map toUint8 ex @
                  drop (countEdgeIndices8Bit s + length ex) (edgeIndices8Bit s),
                eachBucketEdgeIndicesPortion :=
                  (eachBucketEdgeIndicesPortion s)[countBuckets s := toUint32 (countEdgeIndices8Bit s)],
                countEdgeIndices8Bit := countEdgeIndices8Bit s + length ex\<rparr>"
  | ex where "edgeIndices b = Some ex" "t = 1"
      "length ex + countEdgeIndices16Bit s \<le> length (edgeIndices16Bit s)"
      "s' = s\<lparr>edgeIndices16Bit := take (countEdgeIndices16Bit s) (edgeIndices16Bit s) @ map toUint16 ex @
                  drop (countEdgeIndices16Bit s + length ex) (edgeIndices16Bit s),
                eachBucketEdgeIndicesPortion :=
                  (eachBucketEdgeIndicesPortion s)[countBuckets s := toUint32 (countEdgeIndices16Bit s)],
                countEdgeIndices16Bit := countEdgeIndices16Bit s + length ex\<rparr>"
  | ex where "edgeIndices b = Some ex" "t = 2"
      "length ex + countEdgeIndices32Bit s \<le> length (edgeIndices32Bit s)"
      "s' = s\<lparr>edgeIndices32Bit := take (countEdgeIndices32Bit s) (edgeIndices32Bit s) @ map toUint32 ex @
                  drop (countEdgeIndices32Bit s + length ex) (edgeIndices32Bit s),
                eachBucketEdgeIndicesPortion :=
                  (eachBucketEdgeIndicesPortion s)[countBuckets s := toUint32 (countEdgeIndices32Bit s)],
                countEdgeIndices32Bit := countEdgeIndices32Bit s + length ex\<rparr>"
  | ex where "edgeIndices b = Some ex" "2 < t" "s' = s"
proof (cases "edgeIndices b")
  case None
  then show ?thesis using assms that(1) by (simp add: fillBucketEdgeIndices_def)
next
  case (Some ex)
  consider "t = 0" | "t = 1" | "t = 2" | "2 < t" by arith
  then show ?thesis
  proof cases
    case 1
    then show ?thesis using assms Some that(2) [of ex]
      by (simp add: fillBucketEdgeIndices_def typedArraySet_Inr split: sum.splits)
  next
    case 2
    then show ?thesis using assms Some that(3) [of ex]
      by (simp add: fillBucketEdgeIndices_def typedArraySet_Inr split: sum.splits)
  next
    case 3
    then show ?thesis using assms Some that(4) [of ex]
      by (simp add: fillBucketEdgeIndices_def typedArraySet_Inr split: sum.splits)
  next
    case 4
    then show ?thesis using assms Some that(5) [of ex]
      by (simp add: fillBucketEdgeIndices_def)
  qed
qed

lemma fillBucketColorsE:
  assumes "fillBucketColors b s = Inr s'"
  obtains "colorsCompressed b = None" "s' = s"
  | cs where "colorsCompressed b = Some cs" "length cs + countColors s \<le> length (colors s)"
      "s' = s\<lparr>colors := take (countColors s) (colors s) @ map toUint8 cs @
                  drop (countColors s + length cs) (colors s),
                countColors := countColors s + length cs\<rparr>"
  using assms
  by (auto simp: fillBucketColors_def typedArraySet_Inr split: option.splits sum.splits)

lemma fillBucketUVsE:
  assumes "fillBucketUVs b s = Inr s'"
  obtains "uvsCompressed b = None" "s' = s"
  | uv where "uvsCompressed b = Some uv" "length uv + countUVs s \<le> length (uvs s)"
      "s' = s\<lparr>uvs := take (countUVs s) (uvs s) @ uv @ drop (countUVs s + length uv) (uvs s),
                countUVs := countUVs s + length uv\<rparr>"
  using assms
  by (auto simp: fillBucketUVs_def typedArraySet_Inr split: option.splits sum.splits)

lemma fillBucketE:
  assumes "fillBucket b s = Inr s'"
  obtains pc s2 s3 s4 s5 where
    "positionsCompressed b = Some pc"
    "length pc + countPositions s \<le> length (positions s)"
    "fillBucketIndices (bucketIndicesBitness (length pc)) b
       (s\<lparr>eachBucketPositionsPortion :=
             (eachBucketPositionsPortion s)[countBuckets s := toUint32 (countPositions s)],
           eachBucketColorsPortion :=
             (eachBucketColorsPortion s)[countBuckets s := toUint32 (countColors s)],
           eachBucketUVsPortion :=
             (eachBucketUVsPortion s)[countBuckets s := toUint32 (countUVs s)],
           eachBucketIndicesBitness :=
             (eachBucketIndicesBitness s)
               [countBuckets s := toUint8 (bucketIndicesBitness (length pc))],
           positions := take (countPositions s) (positions s) @ map toUint16 pc @
             drop (countPositions s + length pc) (positions s),
           countPositions := countPositions s + length pc\<rparr>) = Inr s2"
    "fillBucketEdgeIndices (bucketIndicesBitness (length pc)) b s2 = Inr s3"
    "fillBucketColors b s3 = Inr s4"
    "fillBucketUVs b s4 = Inr s5"
    "s' = s5\<lparr>countBuckets := countBuckets s5 + 1\<rparr>"
  using assms
  by (auto simp: fillBucket_def typedArraySet_Inr Let_def split: option.splits sum.splits)

lemma optLen_simps [simp]: "optLen None = 0" "optLen (Some xs) = length xs"
  by (simp_all add: optLen_def)

lemma splice_simps [simp]:
  "splice t None off = t"
  "splice t (Some src) off = take off t @ src @ drop (off + length src) t"
  by (simp_all add: splice_def)

lemma fillBucketIndices_eq:
  assumes "fillBucketIndices t b s = Inr s'"
  shows "s' = s\<lparr>indices8Bit :=
                   (if t = 0 then splice (indices8Bit s) (map_option (map toUint8) (indices b))
                      (countIndices8Bit s) else indices8Bit s),
                 indices16Bit :=
                   (if t = 1 then splice (indices16Bit s) (map_option (map toUint16) (indices b))
                      (countIndices16Bit s) else indices16Bit s),
                 indices32Bit :=
                   (if t = 2 then splice (indices32Bit s) (map_option (map toUint32) (indices b))
                      (countIndices32Bit s) else indices32Bit s),
                 eachBucketIndicesPortion :=
                   (if indices b = None \<or> 2 < t then eachBucketIndicesPortion s
                    else (eachBucketIndicesPortion s)
                      [countBuckets s := toUint32 (if t = 0 then countIndices8Bit s
                         else if t = 1 then countIndices16Bit s else countIndices32Bit s)]),
                 countIndices8Bit := countIndices8Bit s + (if t = 0 then optLen (indices b) else 0),
                 countIndices16Bit := countIndices16Bit s + (if t = 1 then optLen (indices b) else 0),
                 countIndices32Bit := countIndices32Bit s + (if t = 2 then optLen (indices b) else 0)\<rparr>"
  using assms by (elim fillBucketIndicesE) simp_all

lemma fillBucketEdgeIndices_eq:
  assumes "fillBucketEdgeIndices t b s = Inr s'"
  shows "s' = s\<lparr>edgeIndices8Bit :=
                   (if t = 0 then splice (edgeIndices8Bit s) (map_option (map toUint8) (edgeIndices b))
                      (countEdgeIndices8Bit s) else edgeIndices8Bit s),
                 edgeIndices16Bit :=
                   (if t = 1 then splice (edgeIndices16Bit s) (map_option (map toUint16) (edgeIndices b))
                      (countEdgeIndices16Bit s) else edgeIndices16Bit s),
                 edgeIndices32Bit :=
                   (if t = 2 then splice (edgeIndices32Bit s) (map_option (map toUint32) (edgeIndices b))
                      (countEdgeIndices32Bit s) else edgeIndices32Bit s),
                 eachBucketEdgeIndicesPortion :=
                   (if edgeIndices b = None \<or> 2 < t then eachBucketEdgeIndicesPortion s
                    else (eachBucketEdgeIndicesPortion s)
                      [countBuckets s := toUint32 (if t = 0 then countEdgeIndices8Bit s
                         else if t = 1 then countEdgeIndices16Bit s else countEdgeIndices32Bit s)]),
                 countEdgeIndices8Bit :=
                   countEdgeIndices8Bit s + (if t = 0 then optLen (edgeIndices b) else 0),
                 countEdgeIndices16Bit :=
                   countEdgeIndices16Bit s + (if t = 1 then optLen (edgeIndices b) else 0),
                 countEdgeIndices32Bit :=
                   countEdgeIndices32Bit s + (if t = 2 then optLen (edgeIndices b) else 0)\<rparr>"
  using assms by (elim fillBucketEdgeIndicesE) simp_all

lemma fillBucketColors_eq:
  assumes "fillBucketColors b s = Inr s'"
  shows "s' = s\<lparr>colors := splice (colors s) (map_option (map toUint8) (colorsCompressed b)) (countColors s),
                 countColors := countColors s + optLen (colorsCompressed b)\<rparr>"
  using assms by (elim fillBucketColorsE) simp_all

lemma fillBucketUVs_eq:
  assumes "fillBucketUVs b s = Inr s'"
  shows "s' = s\<lparr>uvs := splice (uvs s) (uvsCompressed b) (countUVs s),
                 countUVs := countUVs s + optLen (uvsCompressed b)\<rparr>"
  using assms by (elim fillBucketUVsE) simp_all

lemma bucketIndicesBitness_le: "bucketIndicesBitness n \<le> 2"
  by (simp add: bucketIndicesBitness_def Let_def)

lemma fillBucket_eq:
  assumes "fillBucket b s = Inr s'"
  shows "s' = bucketEffect b s"
  using assms
proof (elim fillBucketE)
  fix pc s2 s3 s4 s5
  assume pc: "positionsCompressed b = Some pc"
    and s2: "fillBucketIndices (bucketIndicesBitness (length pc)) b
       (s\<lparr>eachBucketPositionsPortion :=
             (eachBucketPositionsPortion s)[countBuckets s := toUint32 (countPositions s)],
           eachBucketColorsPortion :=
             (eachBucketColorsPortion s)[countBuckets s := toUint32 (countColors s)],
           eachBucketUVsPortion :=
             (eachBucketUVsPortion s)[countBuckets s := toUint32 (countUVs s)],
           eachBucketIndicesBitness :=
             (eachBucketIndicesBitness s)
               [countBuckets s := toUint8 (bucketIndicesBitness (length pc))],
           positions := take (countPositions s) (positions s) @ map toUint16 pc @
             drop (countPositions s + length pc) (positions s),
           countPositions := countPositions s + length pc\<rparr>) = Inr s2"
    and s3: "fillBucketEdgeIndices (bucketIndicesBitness (length pc)) b s2 = Inr s3"
    and s4: "fillBucketColors b s3 = Inr s4"
    and s5: "fillBucketUVs b s4 = Inr s5"
    and s': "s' = s5\<lparr>countBuckets := countBuckets s5 + 1\<rparr>"
  have le: "\<not> 2 < bucketIndicesBitness (length pc)"
    using bucketIndicesBitness_le [of "length pc"] by simp
  show ?thesis
    unfolding s' fillBucketUVs_eq [OF s5] fillBucketColors_eq [OF s4]
      fillBucketEdgeIndices_eq [OF s3] fillBucketIndices_eq [OF s2]
    by (simp add: bucketEffect_def pc le Let_def)
qed

lemma fillGeometryE:
  assumes "fillGeometry geom s = Inr s'"
  obtains s2 where
    "length (positionsDecompressMatrix geom) + countDecodeMatrices s \<le> length (decodeMatrices s)"
    "foldE fillBucket (geometryBuckets geom)
       (s\<lparr>eachGeometryPrimitiveType :=
            (eachGeometryPrimitiveType s)
              [geometryIndex s := undefToUint8 (primitiveTypeCode (primitive geom))],
          eachGeometryBucketPortion :=
            (eachGeometryBucketPortion s)[geometryIndex s := toUint32 (countBuckets s)],
          eachGeometryDecodeMatricesPortion :=
            (eachGeometryDecodeMatricesPortion s)
              [geometryIndex s := toUint32 (countDecodeMatrices s)],
          decodeMatrices :=
            splice (decodeMatrices s) (Some (positionsDecompressMatrix geom)) (countDecodeMatrices s),
          countDecodeMatrices := countDecodeMatrices s + 16\<rparr>) = Inr s2"
    "s' = s2\<lparr>geometryIndices := (geometryIndices s2)(geometry_id geom \<mapsto> geometryIndex s2),
              eachGeometryId := arraySet (eachGeometryId s2) (geometryIndex s2) (geometry_id geom),
              geometryIndex := geometryIndex s2 + 1\<rparr>"
proof -
  from assms obtain a where a: "typedArraySet (decodeMatrices s) (positionsDecompressMatrix geom)
      (countDecodeMatrices s) = Inr a"
    by (simp add: fillGeometry_def Let_def split: sum.splits)
  then have fit: "length (positionsDecompressMatrix geom) + countDecodeMatrices s
      \<le> length (decodeMatrices s)"
    and a_eq: "a = splice (decodeMatrices s) (Some (positionsDecompressMatrix geom))
      (countDecodeMatrices s)"
    by (simp_all add: typedArraySet_Inr)
  from assms a obtain s2 where
    "foldE fillBucket (geometryBuckets geom)
       (s\<lparr>eachGeometryPrimitiveType :=
            (eachGeometryPrimitiveType s)
              [geometryIndex s := undefToUint8 (primitiveTypeCode (primitive geom))],
          eachGeometryBucketPortion :=
            (eachGeometryBucketPortion s)[geometryIndex s := toUint32 (countBuckets s)],
          eachGeometryDecodeMatricesPortion :=
            (eachGeometryDecodeMatricesPortion s)
              [geometryIndex s := toUint32 (countDecodeMatrices s)],
          decodeMatrices :=
            splice (decodeMatrices s) (Some (positionsDecompressMatrix geom)) (countDecodeMatrices s),
          countDecodeMatrices := countDecodeMatrices s + 16\<rparr>) = Inr s2"
    "s' = s2\<lparr>geometryIndices := (geometryIndices s2)(geometry_id geom \<mapsto> geometryIndex s2),
              eachGeometryId := arraySet (eachGeometryId s2) (geometryIndex s2) (geometry_id geom),
              geometryIndex := geometryIndex s2 + 1\<rparr>"
    by (auto simp: fillGeometry_def Let_def a_eq split: sum.splits)
  with fit show ?thesis by (rule that)
qed

subsection \<open>The other steps\<close>

lemma fillTexture_eq:
  "fillTexture E tex s =
     (if length (imageData tex) + portionIdx s \<le> length (textureData s)
      then Inr (s\<lparr>textureData :=
                   splice (textureData s) (Some (map toUint8 (imageData tex))) (portionIdx s),
                 eachTextureDataPortion :=
                   (eachTextureDataPortion s)[textureIndex s := toUint32 (portionIdx s)],
                 portionIdx := portionIdx s + length (imageData tex),
                 eachTextureAttributes :=
                   (eachTextureAttributes s)
                     [textureIndex s * 9 := toUint16 (if compressed tex then 1 else 0),
                      textureIndex s * 9 + 1 := toUint16 (orDefault (mediaType tex) 0),
                      textureIndex s * 9 + 2 := toUint16 (width tex),
                      textureIndex s * 9 + 3 := toUint16 (height tex),
                      textureIndex s * 9 + 4 :=
                        toUint16 (orDefault (minFilter tex) (LinearMipmapLinearFilter E)),
                      textureIndex s * 9 + 5 :=
                        toUint16 (orDefault (magFilter tex) (LinearMipmapLinearFilter E)),
                      textureIndex s * 9 + 6 :=
                        toUint16 (orDefault (wrapS tex) (ClampToEdgeWrapping E)),
                      textureIndex s * 9 + 7 :=
                        toUint16 (orDefault (wrapT tex) (ClampToEdgeWrapping E)),
                      textureIndex s * 9 + 8 :=
                        toUint16 (orDefault (wrapR tex) (ClampToEdgeWrapping E))],
                 textureIndices := (textureIndices s)(texture_id tex \<mapsto> textureIndex s),
                 textureIndex := textureIndex s + 1\<rparr>)
      else Inl RangeError)"
  by (simp add: fillTexture_def typedArraySet_def Let_def NUM_TEXTURE_ATTRIBUTES_def)

lemma fillMesh_eq:
  "fillMesh E mesh s =
     (if length (matrix mesh) + matricesIndex s \<le> length (matrices s)
      then
        (let r = lookupOrigin E mesh
                   (s\<lparr>eachMeshId := arraySet (eachMeshId s) (countMeshes s) (mesh_id mesh),
                      eachMeshGeometriesPortion :=
                        (eachMeshGeometriesPortion s)
                          [countMeshes s :=
                             undefToUint32 (geometryIndices s (geometry_id (geometry mesh)))],
                      eachMeshMatricesPortion :=
                        (eachMeshMatricesPortion s)[countMeshes s := toUint32 (matricesIndex s)],
                      matrices := splice (matrices s) (Some (matrix mesh)) (matricesIndex s),
                      matricesIndex := matricesIndex s + 16\<rparr>);
             s2 = snd r;
             i = eachMeshMaterialAttributesIndex s2
         in Inr (s2\<lparr>eachMeshOriginsPortion :=
                      (eachMeshOriginsPortion s2)[countMeshes s2 := toUint32 (fst r)],
                    eachMeshTextureSet :=
                      (eachMeshTextureSet s2)
                        [countMeshes s2 :=
                           undefToInt32 (textureSetRef (textureSetIndices s2) (textureSet mesh))],
                    eachMeshMaterialAttributes :=
                      (eachMeshMaterialAttributes s2)
                        [i := numToUint8 (fst (color mesh) * 255),
                         i + 1 := numToUint8 (fst (snd (color mesh)) * 255),
                         i + 2 := numToUint8 (snd (snd (color mesh)) * 255),
                         i + 3 := numToUint8 (opacity mesh * 255),
                         i + 4 := numToUint8 (metallic mesh * 255),
                         i + 5 := numToUint8 (roughness mesh * 255)],
                    eachMeshMaterialAttributesIndex := i + 6,
                    countMeshes := countMeshes s2 + 1\<rparr>))
      else Inl RangeError)"
  by (simp add: fillMesh_def typedArraySet_def Let_def split: prod.splits)

lemma fillObjectE:
  assumes "fillObject E object s = Inr s'"
  obtains s2 where
    "foldE (fillMesh E) (object_meshes object)
       (s\<lparr>eachObjectId := arraySet (eachObjectId s) (objectIndex s) (object_id object),
          eachObjectMeshesPortion :=
            (eachObjectMeshesPortion s)[objectIndex s := toUint32 (countMeshes s)]\<rparr>) = Inr s2"
    "s' = s2\<lparr>objectIndex := objectIndex s2 + 1\<rparr>"
  using assms by (auto simp: fillObject_def split: sum.splits)

lemma fillPassE:
  assumes "fillPass E sceneModel = Inr st"
  obtains s1 s2 where
    "foldE fillGeometry (map snd (geometries sceneModel))
       (allocate sceneModel (sizePrePass sceneModel)) = Inr s1"
    "foldE (fillTexture E) (map snd (textures sceneModel)) s1 = Inr s2"
    "foldE (fillObject E) (map snd (objects sceneModel))
       (fold fillTextureSet (map snd (textureSets sceneModel)) s2) = Inr st"
  using assms by (auto simp: fillPass_def split: sum.splits)

lemma lookupOrigin_snd:
  "snd (lookupOrigin E mesh s) =
     (case originLookup s (originHash E (origin mesh)) of
        Some k \<Rightarrow> s
      | None \<Rightarrow>
          s\<lparr>originLookup := (originLookup s)(originHash E (origin mesh) \<mapsto> originsIndex s),
            origins := (origins s)
              [originsIndex s := fst (origin mesh), originsIndex s + 1 := fst (snd (origin mesh)),
               originsIndex s + 2 := snd (snd (origin mesh))],
            originsIndex := originsIndex s + 3\<rparr>)"
  by (simp add: lookupOrigin_def split: option.splits prod.splits)

lemma lookupOrigin_fst:
  "fst (lookupOrigin E mesh s) =
     (case originLookup s (originHash E (origin mesh)) of Some k \<Rightarrow> k | None \<Rightarrow> originsIndex s)"
  by (simp add: lookupOrigin_def split: option.splits prod.splits)

subsection \<open>Frames\<close>

lemma bucketEffect_geometry_fields [simp]:
  "eachGeometryPrimitiveType (bucketEffect b s) = eachGeometryPrimitiveType s"
  "eachGeometryBucketPortion (bucketEffect b s) = eachGeometryBucketPortion s"
  "eachGeometryDecodeMatricesPortion (bucketEffect b s) = eachGeometryDecodeMatricesPortion s"
  "decodeMatrices (bucketEffect b s) = decodeMatrices s"
  "countDecodeMatrices (bucketEffect b s) = countDecodeMatrices s"
  "geometryIndex (bucketEffect b s) = geometryIndex s"
  "geometryIndices (bucketEffect b s) = geometryIndices s"
  "eachGeometryId (bucketEffect b s) = eachGeometryId s"
  by (simp_all add: bucketEffect_def Let_def)

lemma bucketEffect_texture_fields [simp]:
  "textureData (bucketEffect b s) = textureData s"
  "eachTextureDataPortion (bucketEffect b s) = eachTextureDataPortion s"
  "eachTextureAttributes (bucketEffect b s) = eachTextureAttributes s"
  "textureIndex (bucketEffect b s) = textureIndex s"
  "portionIdx (bucketEffect b s) = portionIdx s"
  "textureIndices (bucketEffect b s) = textureIndices s"
  "eachTextureSetTextures (bucketEffect b s) = eachTextureSetTextures s"
  "textureSetIndex (bucketEffect b s) = textureSetIndex s"
  "eachTextureSetTexturesIndex (bucketEffect b s) = eachTextureSetTexturesIndex s"
  "textureSetIndices (bucketEffect b s) = textureSetIndices s"
  by (simp_all add: bucketEffect_def Let_def)

lemma bucketEffect_mesh_fields [simp]:
  "matrices (bucketEffect b s) = matrices s"
  "origins (bucketEffect b s) = origins s"
  "eachMeshGeometriesPortion (bucketEffect b s) = eachMeshGeometriesPortion s"
  "eachMeshMatricesPortion (bucketEffect b s) = eachMeshMatricesPortion s"
  "eachMeshOriginsPortion (bucketEffect b s) = eachMeshOriginsPortion s"
  "eachMeshTextureSet (bucketEffect b s) = eachMeshTextureSet s"
  "eachMeshMaterialAttributes (bucketEffect b s) = eachMeshMaterialAttributes s"
  "eachMeshId (bucketEffect b s) = eachMeshId s"
  "eachObjectId (bucketEffect b s) = eachObjectId s"
  "eachObjectMeshesPortion (bucketEffect b s) = eachObjectMeshesPortion s"
  "eachMeshMaterialAttributesIndex (bucketEffect b s) = eachMeshMaterialAttributesIndex s"
  "matricesIndex (bucketEffect b s) = matricesIndex s"
  "originsIndex (bucketEffect b s) = originsIndex s"
  "countMeshes (bucketEffect b s) = countMeshes s"
  "originLookup (bucketEffect b s) = originLookup s"
  "objectIndex (bucketEffect b s) = objectIndex s"
  by (simp_all add: bucketEffect_def Let_def)

lemma bucketEffect_counts [simp]:
  "countBuckets (bucketEffect b s) = countBuckets s + 1"
  "countPositions (bucketEffect b s) = countPositions s + optLen (positionsCompressed b)"
  "countColors (bucketEffect b s) = countColors s + optLen (colorsCompressed b)"
  "countUVs (bucketEffect b s) = countUVs s + optLen (uvsCompressed b)"
  "countIndices8Bit (bucketEffect b s) = countIndices8Bit s +
     (if bucketIndicesBitness (optLen (positionsCompressed b)) = 0 then optLen (indices b) else 0)"
  "countIndices16Bit (bucketEffect b s) = countIndices16Bit s +
     (if bucketIndicesBitness (optLen (positionsCompressed b)) = 1 then optLen (indices b) else 0)"
  "countIndices32Bit (bucketEffect b s) = countIndices32Bit s +
     (if bucketIndicesBitness (optLen (positionsCompressed b)) = 2 then optLen (indices b) else 0)"
  "countEdgeIndices8Bit (bucketEffect b s) = countEdgeIndices8Bit s +
     (if bucketIndicesBitness (optLen (positionsCompressed b)) = 0 then optLen (edgeIndices b) else 0)"
  "countEdgeIndices16Bit (bucketEffect b s) = countEdgeIndices16Bit s +
     (if bucketIndicesBitness (optLen (positionsCompressed b)) = 1 then optLen (edgeIndices b) else 0)"
  "countEdgeIndices32Bit (bucketEffect b s) = countEdgeIndices32Bit s +
     (if bucketIndicesBitness (optLen (positionsCompressed b)) = 2 then optLen (edgeIndices b) else 0)"
  by (simp_all add: bucketEffect_def Let_def)

lemma fillBuckets_outside:
  assumes "foldE fillBucket bs s = Inr s'"
  shows "outsideBuckets s' = outsideBuckets s"
proof (rule foldE_preserves [OF assms])
  fix b t t'
  assume "fillBucket b t = Inr t'"
  then have "t' = bucketEffect b t" by (rule fillBucket_eq)
  then show "outsideBuckets t' = outsideBuckets t" by (simp add: outsideBuckets_def texturePart_def textureSetPart_def meshPart_def)
qed

lemma fillBuckets_countBuckets:
  assumes "foldE fillBucket bs s = Inr s'"
  shows "countBuckets s' = countBuckets s + length bs"
  using assms
proof (induction bs arbitrary: s)
  case Nil
  then show ?case by simp
next
  case (Cons b bs)
  then obtain s1 where s1: "fillBucket b s = Inr s1" "foldE fillBucket bs s1 = Inr s'"
    by (auto split: sum.splits)
  show ?case using Cons.IH [OF s1(2)] fillBucket_eq [OF s1(1)] by simp
qed

text \<open>What the body of the geometry loop does to the fields of the geometries.\<close>

lemma fillGeometry_level:
  assumes "fillGeometry geom s = Inr s'"
  shows "eachGeometryPrimitiveType s' =
           (eachGeometryPrimitiveType s)
             [geometryIndex s := undefToUint8 (primitiveTypeCode (primitive geom))]"
    and "eachGeometryBucketPortion s' =
           (eachGeometryBucketPortion s)[geometryIndex s := toUint32 (countBuckets s)]"
    and "eachGeometryDecodeMatricesPortion s' =
           (eachGeometryDecodeMatricesPortion s)[geometryIndex s := toUint32 (countDecodeMatrices s)]"
    and "decodeMatrices s' =
           splice (decodeMatrices s) (Some (positionsDecompressMatrix geom)) (countDecodeMatrices s)"
    and "length (positionsDecompressMatrix geom) + countDecodeMatrices s \<le> length (decodeMatrices s)"
    and "countDecodeMatrices s' = countDecodeMatrices s + 16"
    and "geometryIndex s' = geometryIndex s + 1"
    and "countBuckets s' = countBuckets s + length (geometryBuckets geom)"
    and "geometryIndices s' = (geometryIndices s)(geometry_id geom \<mapsto> geometryIndex s)"
    and "eachGeometryId s' = arraySet (eachGeometryId s) (geometryIndex s) (geometry_id geom)"
proof -
  from assms obtain s2 where
    fit: "length (positionsDecompressMatrix geom) + countDecodeMatrices s \<le> length (decodeMatrices s)"
    and s2: "foldE fillBucket (geometryBuckets geom)
       (s\<lparr>eachGeometryPrimitiveType :=
            (eachGeometryPrimitiveType s)
              [geometryIndex s := undefToUint8 (primitiveTypeCode (primitive geom))],
          eachGeometryBucketPortion :=
            (eachGeometryBucketPortion s)[geometryIndex s := toUint32 (countBuckets s)],
          eachGeometryDecodeMatricesPortion :=
            (eachGeometryDecodeMatricesPortion s)
              [geometryIndex s := toUint32 (countDecodeMatrices s)],
          decodeMatrices :=
            splice (decodeMatrices s) (Some (positionsDecompressMatrix geom)) (countDecodeMatrices s),
          countDecodeMatrices := countDecodeMatrices s + 16\<rparr>) = Inr s2"
    and s': "s' = s2\<lparr>geometryIndices := (geometryIndices s2)(geometry_id geom \<mapsto> geometryIndex s2),
              eachGeometryId := arraySet (eachGeometryId s2) (geometryIndex s2) (geometry_id geom),
              geometryIndex := geometryIndex s2 + 1\<rparr>"
    by (rule fillGeometryE)
  note o = fillBuckets_outside [OF s2, unfolded outsideBuckets_def, simplified]
  note c = fillBuckets_countBuckets [OF s2, simplified]
  show "eachGeometryPrimitiveType s' =
           (eachGeometryPrimitiveType s)
             [geometryIndex s := undefToUint8 (primitiveTypeCode (primitive geom))]"
    and "eachGeometryBucketPortion s' =
           (eachGeometryBucketPortion s)[geometryIndex s := toUint32 (countBuckets s)]"
    and "eachGeometryDecodeMatricesPortion s' =
           (eachGeometryDecodeMatricesPortion s)[geometryIndex s := toUint32 (countDecodeMatrices s)]"
    and "decodeMatrices s' =
           splice (decodeMatrices s) (Some (positionsDecompressMatrix geom)) (countDecodeMatrices s)"
    and "length (positionsDecompressMatrix geom) + countDecodeMatrices s \<le> length (decodeMatrices s)"
    and "countDecodeMatrices s' = countDecodeMatrices s + 16"
    and "geometryIndex s' = geometryIndex s + 1"
    and "countBuckets s' = countBuckets s + length (geometryBuckets geom)"
    and "geometryIndices s' = (geometryIndices s)(geometry_id geom \<mapsto> geometryIndex s)"
    and "eachGeometryId s' = arraySet (eachGeometryId s) (geometryIndex s) (geometry_id geom)"
    using o c fit by (simp_all add: s')
qed

lemmas part_defs = geometryPart_def texturePart_def textureSetPart_def meshPart_def

lemma fillGeometry_frame:
  assumes "fillGeometry geom s = Inr s'"
  shows "texturePart s' = texturePart s \<and> textureSetPart s' = textureSetPart s \<and>
    meshPart s' = meshPart s"
proof -
  from assms obtain s2 where
    s2: "foldE fillBucket (geometryBuckets geom)
       (s\<lparr>eachGeometryPrimitiveType :=
            (eachGeometryPrimitiveType s)
              [geometryIndex s := undefToUint8 (primitiveTypeCode (primitive geom))],
          eachGeometryBucketPortion :=
            (eachGeometryBucketPortion s)[geometryIndex s := toUint32 (countBuckets s)],
          eachGeometryDecodeMatricesPortion :=
            (eachGeometryDecodeMatricesPortion s)
              [geometryIndex s := toUint32 (countDecodeMatrices s)],
          decodeMatrices :=
            splice (decodeMatrices s) (Some (positionsDecompressMatrix geom)) (countDecodeMatrices s),
          countDecodeMatrices := countDecodeMatrices s + 16\<rparr>) = Inr s2"
    and s': "s' = s2\<lparr>geometryIndices := (geometryIndices s2)(geometry_id geom \<mapsto> geometryIndex s2),
              eachGeometryId := arraySet (eachGeometryId s2) (geometryIndex s2) (geometry_id geom),
              geometryIndex := geometryIndex s2 + 1\<rparr>"
    by (rule fillGeometryE)
  from fillBuckets_outside [OF s2] show ?thesis
    by (simp add: s' outsideBuckets_def part_defs)
qed

lemma fillGeometries_frame:
  assumes "foldE fillGeometry gs s = Inr s'"
  shows "texturePart s' = texturePart s" "textureSetPart s' = textureSetPart s"
    "meshPart s' = meshPart s"
proof -
  have "(texturePart s', textureSetPart s', meshPart s') =
      (texturePart s, textureSetPart s, meshPart s)"
    by (rule foldE_preserves [OF assms]) (simp add: fillGeometry_frame)
  then show "texturePart s' = texturePart s" "textureSetPart s' = textureSetPart s"
    "meshPart s' = meshPart s" by simp_all
qed

lemma fillTextures_frame:
  assumes "foldE (fillTexture E) ts s = Inr s'"
  shows "geometryPart s' = geometryPart s" "textureSetPart s' = textureSetPart s"
    "meshPart s' = meshPart s"
proof -
  have "(geometryPart s', textureSetPart s', meshPart s') =
      (geometryPart s, textureSetPart s, meshPart s)"
  proof (rule foldE_preserves [OF assms])
    fix x t t'
    assume "fillTexture E x t = Inr t'"
    then show "(geometryPart t', textureSetPart t', meshPart t') =
      (geometryPart t, textureSetPart t, meshPart t)"
      by (auto simp: fillTexture_eq part_defs split: if_splits)
  qed
  then show "geometryPart s' = geometryPart s" "textureSetPart s' = textureSetPart s"
    "meshPart s' = meshPart s" by simp_all
qed

lemma fillTextureSets_frame:
  "geometryPart (fold fillTextureSet tss s) = geometryPart s"
  "texturePart (fold fillTextureSet tss s) = texturePart s"
  "meshPart (fold fillTextureSet tss s) = meshPart s"
  by (induction tss arbitrary: s; simp add: fillTextureSet_def Let_def part_defs)+

lemma fillMesh_frame:
  assumes "fillMesh E mesh s = Inr s'"
  shows "geometryPart s' = geometryPart s \<and> texturePart s' = texturePart s \<and>
    textureSetPart s' = textureSetPart s"
  using assms
  by (auto simp: fillMesh_eq Let_def lookupOrigin_snd part_defs split: if_splits option.splits)

lemma fillMeshes_frame:
  assumes "foldE (fillMesh E) ms s = Inr s'"
  shows "geometryPart s' = geometryPart s \<and> texturePart s' = texturePart s \<and>
    textureSetPart s' = textureSetPart s"
proof -
  have "(geometryPart s', texturePart s', textureSetPart s') =
      (geometryPart s, texturePart s, textureSetPart s)"
    by (rule foldE_preserves [OF assms]) (simp add: fillMesh_frame)
  then show ?thesis by simp
qed

lemma fillObject_frame:
  assumes "fillObject E object s = Inr s'"
  shows "geometryPart s' = geometryPart s \<and> texturePart s' = texturePart s \<and>
    textureSetPart s' = textureSetPart s"
proof -
  from assms obtain s2 where
    s2: "foldE (fillMesh E) (object_meshes object)
       (s\<lparr>eachObjectId := arraySet (eachObjectId s) (objectIndex s) (object_id object),
          eachObjectMeshesPortion :=
            (eachObjectMeshesPortion s)[objectIndex s := toUint32 (countMeshes s)]\<rparr>) = Inr s2"
    and s': "s' = s2\<lparr>objectIndex := objectIndex s2 + 1\<rparr>"
    by (rule fillObjectE)
  from fillMeshes_frame [OF s2] show ?thesis by (simp add: s' part_defs)
qed

lemma fillObjects_frame:
  assumes "foldE (fillObject E) os s = Inr s'"
  shows "geometryPart s' = geometryPart s" "texturePart s' = texturePart s"
    "textureSetPart s' = textureSetPart s"
proof -
  have "(geometryPart s', texturePart s', textureSetPart s') =
      (geometryPart s, texturePart s, textureSetPart s)"
    by (rule foldE_preserves [OF assms]) (simp add: fillObject_frame)
  then show "geometryPart s' = geometryPart s" "texturePart s' = texturePart s"
    "textureSetPart s' = textureSetPart s" by simp_all
qed

text \<open>The four parts of the final state of a fill pass that completes.\<close>

lemma fillPass_parts:
  assumes "fillPass E sceneModel = Inr st"
  obtains s1 s2 where
    "foldE fillGeometry (map snd (geometries sceneModel))
       (allocate sceneModel (sizePrePass sceneModel)) = Inr s1"
    "foldE (fillTexture E) (map snd (textures sceneModel)) s1 = Inr s2"
    "foldE (fillObject E) (map snd (objects sceneModel))
       (fold fillTextureSet (map snd (textureSets sceneModel)) s2) = Inr st"
    "geometryPart st = geometryPart s1"
    "texturePart st = texturePart s2"
    "textureSetPart st = textureSetPart (fold fillTextureSet (map snd (textureSets sceneModel)) s2)"
    "texturePart s1 = texturePart (allocate sceneModel (sizePrePass sceneModel))"
    "textureSetPart s2 = textureSetPart (allocate sceneModel (sizePrePass sceneModel))"
    "meshPart (fold fillTextureSet (map snd (textureSets sceneModel)) s2) =
       meshPart (allocate sceneModel (sizePrePass sceneModel))"
proof -
  from assms obtain s1 s2 where
    1: "foldE fillGeometry (map snd (geometries sceneModel))
       (allocate sceneModel (sizePrePass sceneModel)) = Inr s1"
    and 2: "foldE (fillTexture E) (map snd (textures sceneModel)) s1 = Inr s2"
    and 3: "foldE (fillObject E) (map snd (objects sceneModel))
       (fold fillTextureSet (map snd (textureSets sceneModel)) s2) = Inr st"
    by (rule fillPassE)
  note g = fillGeometries_frame [OF 1]
  note t = fillTextures_frame [OF 2]
  note ts = fillTextureSets_frame [of "map snd (textureSets sceneModel)" s2]
  note ob = fillObjects_frame [OF 3]
  show ?thesis
    by (rule that [OF 1 2 3]) (simp_all add: g t ts ob)
qed



subsection \<open>Tables of ids, textures and texture sets\<close>

lemma idTable_Nil [simp]: "idTable [] = Map.empty"
  by (simp add: idTable_def)

lemma idTable_snoc: "idTable (ids @ [k]) = (idTable ids)(k \<mapsto> length ids)"
  by (simp add: idTable_def fun_eq_iff)

lemma idTable_Some:
  "idTable ids k = Some i \<Longrightarrow> i < length ids \<and> ids ! i = k"
proof (induction ids arbitrary: i rule: rev_induct)
  case Nil
  then show ?case by simp
next
  case (snoc x xs)
  show ?case
  proof (cases "k = x")
    case True
    with snoc.prems have "i = length xs" by (simp add: idTable_snoc)
    with True show ?thesis by simp
  next
    case False
    with snoc.prems have "idTable xs k = Some i" by (simp add: idTable_snoc)
    from snoc.IH [OF this] show ?thesis by (simp add: nth_append)
  qed
qed

lemma idTable_None: "k \<notin> set ids \<Longrightarrow> idTable ids k = None"
  by (induction ids rule: rev_induct) (simp_all add: idTable_snoc)

lemma idTable_distinct:
  assumes "distinct ids" "i < length ids"
  shows "idTable ids (ids ! i) = Some i"
  using assms
proof (induction ids arbitrary: i rule: rev_induct)
  case Nil
  then show ?case by simp
next
  case (snoc x xs)
  show ?case
  proof (cases "i < length xs")
    case True
    then have "xs ! i \<noteq> x" using snoc.prems(1) by auto
    with True snoc show ?thesis by (simp add: idTable_snoc nth_append)
  next
    case False
    with snoc.prems(2) have "i = length xs" by simp
    then show ?thesis by (simp add: idTable_snoc)
  qed
qed


lemma take4_list_update:
  assumes "i + 4 \<le> length xs"
  shows "take (i + 4) (xs[i := a, i + 1 := b, i + 2 := c, i + 3 := d]) = take i xs @ [a, b, c, d]"
proof (rule nth_equalityI)
  show "length (take (i + 4) (xs[i := a, i + 1 := b, i + 2 := c, i + 3 := d]))
    = length (take i xs @ [a, b, c, d])"
    using assms by simp
next
  fix k
  assume "k < length (take (i + 4) (xs[i := a, i + 1 := b, i + 2 := c, i + 3 := d]))"
  then have k: "k < i + 4" by simp
  then consider "k < i" | "k = i" | "k = i + 1" | "k = i + 2" | "k = i + 3" by arith
  then show "take (i + 4) (xs[i := a, i + 1 := b, i + 2 := c, i + 3 := d]) ! k
    = (take i xs @ [a, b, c, d]) ! k"
    using assms by cases (simp_all add: nth_append)
qed

lemma drop4_list_update:
  "drop (i + 4) (xs[i := a, i + 1 := b, i + 2 := c, i + 3 := d]) = drop (i + 4) xs"
  by simp

lemma fillTextureSets_slots:
  assumes "eachTextureSetTexturesIndex s = 0" and "textureSetIndex s = 0"
    and "textureSetIndices s = Map.empty"
    and "eachTextureSetTextures s = replicate (length tss * 5) 0"
  shows "eachTextureSetTextures (fold fillTextureSet tss s) =
           concat (map (textureSetSlots (textureIndices s)) tss) @ replicate (length tss) 0 \<and>
         eachTextureSetTexturesIndex (fold fillTextureSet tss s) = 4 * length tss \<and>
         textureSetIndex (fold fillTextureSet tss s) = length tss \<and>
         textureSetIndices (fold fillTextureSet tss s) = idTable (map textureSet_id tss)"
proof -
  let ?n = "length tss"
  let ?I = "\<lambda>(zs :: TextureSet list) (t :: FillState). textureIndices t = textureIndices s \<and>
      eachTextureSetTexturesIndex t = 4 * length zs \<and>
      textureSetIndex t = length zs \<and>
      textureSetIndices t = idTable (map textureSet_id zs) \<and>
      length (eachTextureSetTextures t) = ?n * 5 \<and>
      take (4 * length zs) (eachTextureSetTextures t) =
        concat (map (textureSetSlots (textureIndices s)) zs) \<and>
      drop (4 * length zs) (eachTextureSetTextures t) = replicate (?n * 5 - 4 * length zs) 0"
  have "?I tss (fold fillTextureSet tss s)"
  proof (rule fold_all_induct [where I = ?I])
    show "?I [] s" using assms by simp
  next
    fix zs :: "TextureSet list" and x ws and t :: FillState
    assume xs: "tss = zs @ x # ws" and I: "?I zs t"
    have fit: "4 * length zs + 4 \<le> length (eachTextureSetTextures t)" using xs I by simp
    have idx: "4 * length (zs @ [x]) = 4 * length zs + 4" by simp
    have arr: "eachTextureSetTextures (fillTextureSet x t) =
        (eachTextureSetTextures t)
          [4 * length zs := undefToInt32 (textureRef (textureIndices s) (colorTexture x)),
           4 * length zs + 1 :=
             undefToInt32 (textureRef (textureIndices s) (metallicRoughnessTexture x)),
           4 * length zs + 2 := undefToInt32 (textureRef (textureIndices s) (emissiveTexture x)),
           4 * length zs + 3 := undefToInt32 (textureRef (textureIndices s) (occlusionTexture x))]"
      using I by (simp add: fillTextureSet_def Let_def)
    have tk: "take (4 * length (zs @ [x])) (eachTextureSetTextures (fillTextureSet x t)) =
        concat (map (textureSetSlots (textureIndices s)) (zs @ [x]))"
      unfolding idx arr take4_list_update [OF fit] using I by (simp add: textureSetSlots_def)
    have "drop (4 * length zs + 4) (eachTextureSetTextures t) =
        drop 4 (drop (4 * length zs) (eachTextureSetTextures t))"
      by (simp add: add.commute)
    also have "\<dots> = replicate (?n * 5 - 4 * length zs - 4) 0" using I by simp
    finally have dr: "drop (4 * length (zs @ [x])) (eachTextureSetTextures (fillTextureSet x t)) =
        replicate (?n * 5 - 4 * length (zs @ [x])) 0"
      unfolding idx arr drop4_list_update by simp
    have others: "textureIndices (fillTextureSet x t) = textureIndices s"
      "eachTextureSetTexturesIndex (fillTextureSet x t) = 4 * length (zs @ [x])"
      "textureSetIndex (fillTextureSet x t) = length (zs @ [x])"
      "textureSetIndices (fillTextureSet x t) = idTable (map textureSet_id (zs @ [x]))"
      "length (eachTextureSetTextures (fillTextureSet x t)) = ?n * 5"
      using I by (simp_all add: fillTextureSet_def Let_def idTable_snoc)
    show "?I (zs @ [x]) (fillTextureSet x t)"
      using others tk dr by blast
  qed
  then have l: "length (eachTextureSetTextures (fold fillTextureSet tss s)) = ?n * 5"
    and t: "take (4 * ?n) (eachTextureSetTextures (fold fillTextureSet tss s)) =
        concat (map (textureSetSlots (textureIndices s)) tss)"
    and d: "drop (4 * ?n) (eachTextureSetTextures (fold fillTextureSet tss s)) = replicate ?n 0"
    and rest: "eachTextureSetTexturesIndex (fold fillTextureSet tss s) = 4 * length tss"
      "textureSetIndex (fold fillTextureSet tss s) = length tss"
      "textureSetIndices (fold fillTextureSet tss s) = idTable (map textureSet_id tss)"
    by simp_all
  have "eachTextureSetTextures (fold fillTextureSet tss s) =
      take (4 * ?n) (eachTextureSetTextures (fold fillTextureSet tss s)) @
      drop (4 * ?n) (eachTextureSetTextures (fold fillTextureSet tss s))"
    by simp
  then show ?thesis using t d rest by simp
qed

lemma exampleScene_fillPass: "\<exists>st. fillPass exampleEnv exampleScene = Inr st"
  by (simp add: encoder_defs scene_defs)


subsection \<open>The loop over the objects and their meshes\<close>

text \<open>
  The loop over the objects with its inner loop over the meshes: an invariant of the
  meshes handled so far, which the bookkeeping of the objects does not touch.
\<close>

lemma fillObjects_induct:
  assumes run: "foldE (fillObject E) os s = Inr s'"
    and init: "I [] s"
    and mesh: "\<And>(zs :: Mesh list) x t t'. I zs t \<Longrightarrow> x \<in> set (concat (map object_meshes os)) \<Longrightarrow>
        fillMesh E x t = Inr t' \<Longrightarrow> I (zs @ [x]) t'"
    and enter: "\<And>zs t a b. I zs t \<Longrightarrow> I zs (t\<lparr>eachObjectId := a, eachObjectMeshesPortion := b\<rparr>)"
    and leave: "\<And>zs t n. I zs t \<Longrightarrow> I zs (t\<lparr>objectIndex := n\<rparr>)"
  shows "I (concat (map object_meshes os)) s'"
proof -
  let ?J = "\<lambda>ys t. I (concat (map object_meshes ys)) t"
  have "?J ([] @ os) s'"
  proof (rule foldE_prefix_induct [OF run, where I = ?J])
    show "?J [] s" using init by simp
  next
    fix ys :: "SceneObject list" and x t t'
    assume J: "?J ys t" and x: "x \<in> set os" and step: "fillObject E x t = Inr t'"
    from step obtain t2 where
      t2: "foldE (fillMesh E) (object_meshes x)
         (t\<lparr>eachObjectId := arraySet (eachObjectId t) (objectIndex t) (object_id x),
            eachObjectMeshesPortion :=
              (eachObjectMeshesPortion t)[objectIndex t := toUint32 (countMeshes t)]\<rparr>) = Inr t2"
      and t': "t' = t2\<lparr>objectIndex := objectIndex t2 + 1\<rparr>"
      by (rule fillObjectE)
    have "I (concat (map object_meshes ys) @ object_meshes x) t2"
    proof (rule foldE_prefix_induct [OF t2, where I = I])
      show "I (concat (map object_meshes ys))
         (t\<lparr>eachObjectId := arraySet (eachObjectId t) (objectIndex t) (object_id x),
            eachObjectMeshesPortion :=
              (eachObjectMeshesPortion t)[objectIndex t := toUint32 (countMeshes t)]\<rparr>)"
        by (rule enter [OF J])
    next
      fix zs y u u'
      assume u: "I zs u" and y: "y \<in> set (object_meshes x)" and step: "fillMesh E y u = Inr u'"
      from x y have "y \<in> set (concat (map object_meshes os))" by auto
      with u show "I (zs @ [y]) u'" using step by (rule mesh)
    qed
    then have "I (concat (map object_meshes ys) @ object_meshes x) t'"
      unfolding t' by (rule leave)
    then show "?J (ys @ [x]) t'" by simp
  qed
  then show ?thesis by simp
qed

lemma fillMesh_fields:
  assumes "fillMesh E mesh s = Inr s'"
  shows "length (matrix mesh) + matricesIndex s \<le> length (matrices s)"
    and "countMeshes s' = countMeshes s + 1"
    and "matricesIndex s' = matricesIndex s + 16"
    and "eachMeshMaterialAttributesIndex s' = eachMeshMaterialAttributesIndex s + 6"
    and "matrices s' = splice (matrices s) (Some (matrix mesh)) (matricesIndex s)"
    and "eachMeshGeometriesPortion s' =
           (eachMeshGeometriesPortion s)
             [countMeshes s := undefToUint32 (geometryIndices s (geometry_id (geometry mesh)))]"
    and "eachMeshMatricesPortion s' =
           (eachMeshMatricesPortion s)[countMeshes s := toUint32 (matricesIndex s)]"
    and "eachMeshOriginsPortion s' =
           (eachMeshOriginsPortion s)
             [countMeshes s :=
                toUint32 (case originLookup s (originHash E (origin mesh)) of
                            Some k \<Rightarrow> k | None \<Rightarrow> originsIndex s)]"
    and "eachMeshTextureSet s' =
           (eachMeshTextureSet s)
             [countMeshes s := undefToInt32 (textureSetRef (textureSetIndices s) (textureSet mesh))]"
    and "eachMeshMaterialAttributes s' =
           (eachMeshMaterialAttributes s)
             [eachMeshMaterialAttributesIndex s := numToUint8 (fst (color mesh) * 255),
              eachMeshMaterialAttributesIndex s + 1 := numToUint8 (fst (snd (color mesh)) * 255),
              eachMeshMaterialAttributesIndex s + 2 := numToUint8 (snd (snd (color mesh)) * 255),
              eachMeshMaterialAttributesIndex s + 3 := numToUint8 (opacity mesh * 255),
              eachMeshMaterialAttributesIndex s + 4 := numToUint8 (metallic mesh * 255),
              eachMeshMaterialAttributesIndex s + 5 := numToUint8 (roughness mesh * 255)]"
    and "originLookup s' =
           (case originLookup s (originHash E (origin mesh)) of
              Some k \<Rightarrow> originLookup s
            | None \<Rightarrow> (originLookup s)(originHash E (origin mesh) \<mapsto> originsIndex s))"
    and "origins s' =
           (case originLookup s (originHash E (origin mesh)) of
              Some k \<Rightarrow> origins s
            | None \<Rightarrow>
                (origins s)
                  [originsIndex s := fst (origin mesh),
                   originsIndex s + 1 := fst (snd (origin mesh)),
                   originsIndex s + 2 := snd (snd (origin mesh))])"
    and "originsIndex s' =
           originsIndex s + (case originLookup s (originHash E (origin mesh)) of
                               Some k \<Rightarrow> 0 | None \<Rightarrow> 3)"
    and "eachMeshId s' = arraySet (eachMeshId s) (countMeshes s) (mesh_id mesh)"
    and "eachObjectId s' = eachObjectId s"
    and "eachObjectMeshesPortion s' = eachObjectMeshesPortion s"
    and "objectIndex s' = objectIndex s"
    and "geometryIndices s' = geometryIndices s"
    and "textureSetIndices s' = textureSetIndices s"
  using assms
  by (auto simp: fillMesh_eq Let_def lookupOrigin_snd lookupOrigin_fst
      split: if_splits option.splits)

lemma replicate_tail_update1:
  assumes "length xs = n" "n < N"
  shows "(xs @ replicate (N - n) z)[n := v] = (xs @ [v]) @ replicate (N - Suc n) z"
proof -
  have "N - n = Suc (N - Suc n)" using assms(2) by simp
  then have "replicate (N - n) z = z # replicate (N - Suc n) z" by simp
  then show ?thesis using assms(1) by (simp add: list_update_append)
qed

lemma replicate_tail_update6:
  assumes "length xs = 6 * n" "n < N"
  shows "(xs @ replicate (6 * (N - n)) z)
           [6 * n := a, 6 * n + 1 := b, 6 * n + 2 := c, 6 * n + 3 := d, 6 * n + 4 := e, 6 * n + 5 := f]
         = (xs @ [a, b, c, d, e, f]) @ replicate (6 * (N - Suc n)) z"
proof -
  have "6 * (N - n) = Suc (Suc (Suc (Suc (Suc (Suc (6 * (N - Suc n)))))))" using assms(2) by simp
  then have "replicate (6 * (N - n)) z = z # z # z # z # z # z # replicate (6 * (N - Suc n)) z"
    by simp
  then show ?thesis using assms(1) by (simp add: list_update_append)
qed

lemma replicate_tail_splice16:
  assumes "length xs = 16 * n" "n < N" "length m = 16"
  shows "splice (xs @ replicate (16 * (N - n)) z) (Some m) (16 * n)
         = (xs @ m) @ replicate (16 * (N - Suc n)) z"
proof -
  have "16 * (N - n) - 16 = 16 * (N - Suc n)" using assms(2) by simp
  then show ?thesis using assms by simp
qed


lemma length_concat_matrices:
  "\<forall>mesh \<in> set zs. length (matrix mesh) = 16 \<Longrightarrow> length (concat (map matrix zs)) = 16 * length zs"
  by (induction zs) simp_all

lemma length_concat_meshMaterialAttributes:
  "length (concat (map meshMaterialAttributes zs)) = 6 * length zs"
  by (induction zs) (simp_all add: meshMaterialAttributes_def)

lemma fillObjects_records:
  assumes run: "foldE (fillObject E) os s = Inr s'"
    and mats: "\<forall>mesh \<in> set (concat (map object_meshes os)). length (matrix mesh) = 16"
    and init: "countMeshes s = 0" "matricesIndex s = 0" "eachMeshMaterialAttributesIndex s = 0"
      "matrices s = replicate (16 * N) 0"
      "eachMeshGeometriesPortion s = replicate N 0"
      "eachMeshMatricesPortion s = replicate N 0"
      "eachMeshOriginsPortion s = replicate N 0"
      "eachMeshTextureSet s = replicate N 0"
      "eachMeshMaterialAttributes s = replicate (6 * N) 0"
  shows "length (concat (map object_meshes os)) \<le> N \<and>
    countMeshes s' = length (concat (map object_meshes os)) \<and>
    matricesIndex s' = 16 * length (concat (map object_meshes os)) \<and>
    eachMeshMaterialAttributesIndex s' = 6 * length (concat (map object_meshes os)) \<and>
    matrices s' = concat (map matrix (concat (map object_meshes os)))
      @ replicate (16 * (N - length (concat (map object_meshes os)))) 0 \<and>
    eachMeshGeometriesPortion s' =
      map (\<lambda>mesh. undefToUint32 (geometryIndices s (geometry_id (geometry mesh))))
        (concat (map object_meshes os))
      @ replicate (N - length (concat (map object_meshes os))) 0 \<and>
    eachMeshMatricesPortion s' =
      map (\<lambda>j. toUint32 (16 * j)) [0..<length (concat (map object_meshes os))]
      @ replicate (N - length (concat (map object_meshes os))) 0 \<and>
    eachMeshTextureSet s' =
      map (\<lambda>mesh. undefToInt32 (textureSetRef (textureSetIndices s) (textureSet mesh)))
        (concat (map object_meshes os))
      @ replicate (N - length (concat (map object_meshes os))) 0 \<and>
    eachMeshMaterialAttributes s' =
      concat (map meshMaterialAttributes (concat (map object_meshes os)))
      @ replicate (6 * (N - length (concat (map object_meshes os)))) 0 \<and>
    length (eachMeshOriginsPortion s') = N \<and>
    drop (length (concat (map object_meshes os))) (eachMeshOriginsPortion s') =
      replicate (N - length (concat (map object_meshes os))) 0"
proof -
  let ?G = "\<lambda>mesh. undefToUint32 (geometryIndices s (geometry_id (geometry mesh)))"
  let ?T = "\<lambda>mesh. undefToInt32 (textureSetRef (textureSetIndices s) (textureSet mesh))"
  let ?I = "\<lambda>(zs :: Mesh list) (t :: FillState).
    geometryIndices t = geometryIndices s \<and> textureSetIndices t = textureSetIndices s \<and>
    length zs \<le> N \<and>
    countMeshes t = length zs \<and>
    matricesIndex t = 16 * length zs \<and>
    eachMeshMaterialAttributesIndex t = 6 * length zs \<and>
    matrices t = concat (map matrix zs) @ replicate (16 * (N - length zs)) 0 \<and>
    eachMeshGeometriesPortion t = map ?G zs @ replicate (N - length zs) 0 \<and>
    eachMeshMatricesPortion t =
      map (\<lambda>j. toUint32 (16 * j)) [0..<length zs] @ replicate (N - length zs) 0 \<and>
    eachMeshTextureSet t = map ?T zs @ replicate (N - length zs) 0 \<and>
    eachMeshMaterialAttributes t =
      concat (map meshMaterialAttributes zs) @ replicate (6 * (N - length zs)) 0 \<and>
    length (eachMeshOriginsPortion t) = N \<and>
    drop (length zs) (eachMeshOriginsPortion t) = replicate (N - length zs) 0 \<and>
    (\<forall>mesh \<in> set zs. length (matrix mesh) = 16)"
  have "?I (concat (map object_meshes os)) s'"
  proof (rule fillObjects_induct [OF run, where I = ?I])
    show "?I [] s" using init by simp
  next
    fix zs :: "Mesh list" and t :: FillState and a b
    assume "?I zs t"
    then show "?I zs (t\<lparr>eachObjectId := a, eachObjectMeshesPortion := b\<rparr>)" by simp
  next
    fix zs :: "Mesh list" and t :: FillState and n
    assume "?I zs t"
    then show "?I zs (t\<lparr>objectIndex := n\<rparr>)" by simp
  next
    fix zs :: "Mesh list" and x and t t' :: FillState
    assume I: "?I zs t" and x: "x \<in> set (concat (map object_meshes os))"
      and step: "fillMesh E x t = Inr t'"
    let ?n = "length zs"
    note f = fillMesh_fields [OF step]
    from I have i0: "geometryIndices t = geometryIndices s"
      "textureSetIndices t = textureSetIndices s"
      and le: "?n \<le> N"
      and cnt: "countMeshes t = ?n" "matricesIndex t = 16 * ?n"
        "eachMeshMaterialAttributesIndex t = 6 * ?n"
      and mt: "matrices t = concat (map matrix zs) @ replicate (16 * (N - ?n)) 0"
      and gp: "eachMeshGeometriesPortion t = map ?G zs @ replicate (N - ?n) 0"
      and mp: "eachMeshMatricesPortion t =
        map (\<lambda>j. toUint32 (16 * j)) [0..<?n] @ replicate (N - ?n) 0"
      and tsp: "eachMeshTextureSet t = map ?T zs @ replicate (N - ?n) 0"
      and ma: "eachMeshMaterialAttributes t =
        concat (map meshMaterialAttributes zs) @ replicate (6 * (N - ?n)) 0"
      and op: "length (eachMeshOriginsPortion t) = N"
        "drop ?n (eachMeshOriginsPortion t) = replicate (N - ?n) 0"
      and z16: "\<forall>mesh \<in> set zs. length (matrix mesh) = 16"
      by blast+
    have m16: "length (matrix x) = 16" using mats x by blast
    have lm: "length (concat (map matrix zs)) = 16 * ?n"
      using z16 by (rule length_concat_matrices)
    have la: "length (concat (map meshMaterialAttributes zs)) = 6 * ?n"
      by (rule length_concat_meshMaterialAttributes)
    have "length (matrices t) = 16 * N" unfolding mt using lm le by simp
    with f(1) m16 cnt have lt: "?n < N" by simp
    have 1: "matrices t' = concat (map matrix (zs @ [x])) @ replicate (16 * (N - length (zs @ [x]))) 0"
      using replicate_tail_splice16 [OF lm lt m16, of 0] by (simp add: f(5) mt cnt del: splice_simps)
    have 2: "eachMeshGeometriesPortion t' =
        map ?G (zs @ [x]) @ replicate (N - length (zs @ [x])) 0"
      using replicate_tail_update1 [of "map ?G zs" ?n N 0] lt by (simp add: f(6) gp cnt i0)
    have 3: "eachMeshMatricesPortion t' =
        map (\<lambda>j. toUint32 (16 * j)) [0..<length (zs @ [x])] @ replicate (N - length (zs @ [x])) 0"
      using replicate_tail_update1 [of "map (\<lambda>j. toUint32 (16 * j)) [0..<?n]" ?n N 0] lt
      by (simp add: f(7) mp cnt)
    have 4: "eachMeshTextureSet t' = map ?T (zs @ [x]) @ replicate (N - length (zs @ [x])) 0"
      using replicate_tail_update1 [of "map ?T zs" ?n N 0] lt by (simp add: f(9) tsp cnt i0)
    have 5: "eachMeshMaterialAttributes t' =
        concat (map meshMaterialAttributes (zs @ [x])) @ replicate (6 * (N - length (zs @ [x]))) 0"
      unfolding f(10) ma cnt replicate_tail_update6 [OF la lt]
      by (simp add: meshMaterialAttributes_def)
    have "drop (Suc ?n) (eachMeshOriginsPortion t') = drop 1 (drop ?n (eachMeshOriginsPortion t))"
      by (simp add: f(8) cnt)
    also have "\<dots> = replicate (N - Suc ?n) 0" unfolding op by simp
    finally have 6: "drop (length (zs @ [x])) (eachMeshOriginsPortion t') =
        replicate (N - length (zs @ [x])) 0"
      by simp
    have 7: "geometryIndices t' = geometryIndices s" "textureSetIndices t' = textureSetIndices s"
      "length (zs @ [x]) \<le> N" "countMeshes t' = length (zs @ [x])"
      "matricesIndex t' = 16 * length (zs @ [x])"
      "eachMeshMaterialAttributesIndex t' = 6 * length (zs @ [x])"
      "length (eachMeshOriginsPortion t') = N"
      "\<forall>mesh \<in> set (zs @ [x]). length (matrix mesh) = 16"
      using i0 cnt op z16 lt m16 by (simp_all add: f)
    from 1 2 3 4 5 6 7 show "?I (zs @ [x]) t'" by blast
  qed
  then show ?thesis by blast
qed

lemma fillGeometries_table:
  assumes "foldE fillGeometry gs s = Inr s'"
    and "geometryIndex s = 0" and "geometryIndices s = Map.empty"
  shows "geometryIndices s' = idTable (map geometry_id gs) \<and> geometryIndex s' = length gs"
proof -
  let ?I = "\<lambda>(zs :: Geometry list) (t :: FillState).
      geometryIndices t = idTable (map geometry_id zs) \<and> geometryIndex t = length zs"
  show ?thesis
  proof (rule foldE_all_induct [OF assms(1), where I = ?I])
    show "?I [] s" using assms(2,3) by simp
  next
    fix zs :: "Geometry list" and x ws and t t' :: FillState
    assume "?I zs t" and step: "fillGeometry x t = Inr t'"
    then show "?I (zs @ [x]) t'"
      by (simp add: fillGeometry_level(7,9) [OF step] idTable_snoc)
  qed
qed

text \<open>The state in which the loop over the objects starts.\<close>

lemma fillPass_objects:
  assumes "fillPass E sceneModel = Inr st"
  obtains s3 where
    "foldE (fillObject E) (map snd (objects sceneModel)) s3 = Inr st"
    "meshPart s3 = meshPart (allocate sceneModel (sizePrePass sceneModel))"
    "geometryIndices s3 = idTable (map geometry_id (map snd (geometries sceneModel)))"
    "textureSetIndices s3 = idTable (map textureSet_id (map snd (textureSets sceneModel)))"
proof -
  let ?s0 = "allocate sceneModel (sizePrePass sceneModel)"
  let ?tss = "map snd (textureSets sceneModel)"
  from assms obtain s1 s2 where
    1: "foldE fillGeometry (map snd (geometries sceneModel)) ?s0 = Inr s1"
    and 2: "foldE (fillTexture E) (map snd (textures sceneModel)) s1 = Inr s2"
    and 3: "foldE (fillObject E) (map snd (objects sceneModel)) (fold fillTextureSet ?tss s2) = Inr st"
    and p: "textureSetPart s2 = textureSetPart ?s0"
      "meshPart (fold fillTextureSet ?tss s2) = meshPart ?s0"
    by (rule fillPass_parts)
  have "geometryIndices s1 = idTable (map geometry_id (map snd (geometries sceneModel)))"
    using fillGeometries_table [OF 1] by (simp add: allocate_def Let_def)
  moreover have "geometryPart (fold fillTextureSet ?tss s2) = geometryPart s1"
    using fillTextures_frame(1) [OF 2] fillTextureSets_frame(1) [of ?tss s2] by simp
  ultimately have g: "geometryIndices (fold fillTextureSet ?tss s2) =
      idTable (map geometry_id (map snd (geometries sceneModel)))"
    by (simp add: geometryPart_def)
  have s2: "eachTextureSetTexturesIndex s2 = 0" "textureSetIndex s2 = 0"
    "textureSetIndices s2 = Map.empty"
    "eachTextureSetTextures s2 = replicate (length ?tss * 5) 0"
    using p(1) by (simp_all add: textureSetPart_def allocate_def Let_def)
  have t: "textureSetIndices (fold fillTextureSet ?tss s2) = idTable (map textureSet_id ?tss)"
    using fillTextureSets_slots [OF s2] by simp
  show ?thesis by (rule that [OF 3 p(2) g t])
qed

lemma sum_list_length_concat: "length (concat xss) = sum_list (map length xss)"
  by (induction xss) simp_all


subsection \<open>Sentinels\<close>



lemma idTable_member: "k \<in> set ids \<Longrightarrow> \<exists>i. idTable ids k = Some i"
  by (induction ids rule: rev_induct) (auto simp: idTable_snoc)





subsection \<open>The closed forms of the arrays of texture sets and meshes\<close>



lemma fillPass_mesh_records:
  assumes "fillPass E sceneModel = Inr st"
    and "\<forall>mesh \<in> set (meshReferences sceneModel). length (matrix mesh) = 16"
  shows "countMeshes st = sum_list (map (\<lambda>object. length (object_meshes object))
                                     (map snd (objects sceneModel))) \<and>
    countMeshes st = length (meshReferences sceneModel) \<and>
    countMeshes st \<le> length (meshes sceneModel) \<and>
    matrices st = concat (map matrix (meshReferences sceneModel))
      @ replicate (16 * (length (meshes sceneModel) - countMeshes st)) 0 \<and>
    eachMeshGeometriesPortion st =
      map (\<lambda>mesh. undefToUint32 (idTable (map geometry_id (map snd (geometries sceneModel)))
                                    (geometry_id (geometry mesh))))
        (meshReferences sceneModel)
      @ replicate (length (meshes sceneModel) - countMeshes st) 0 \<and>
    eachMeshMatricesPortion st =
      map (\<lambda>j. toUint32 (16 * j)) [0..<countMeshes st]
      @ replicate (length (meshes sceneModel) - countMeshes st) 0 \<and>
    length (eachMeshOriginsPortion st) = length (meshes sceneModel) \<and>
    drop (countMeshes st) (eachMeshOriginsPortion st) =
      replicate (length (meshes sceneModel) - countMeshes st) 0 \<and>
    eachMeshTextureSet st =
      map (\<lambda>mesh. undefToInt32 (textureSetRef
                     (idTable (map textureSet_id (map snd (textureSets sceneModel))))
                     (textureSet mesh)))
        (meshReferences sceneModel)
      @ replicate (length (meshes sceneModel) - countMeshes st) 0 \<and>
    eachMeshMaterialAttributes st =
      concat (map meshMaterialAttributes (meshReferences sceneModel))
      @ replicate (6 * (length (meshes sceneModel) - countMeshes st)) 0"
proof -
  let ?s0 = "allocate sceneModel (sizePrePass sceneModel)"
  let ?N = "length (meshes sceneModel)"
  from assms(1) obtain s3 where
    run: "foldE (fillObject E) (map snd (objects sceneModel)) s3 = Inr st"
    and m: "meshPart s3 = meshPart ?s0"
    and g: "geometryIndices s3 = idTable (map geometry_id (map snd (geometries sceneModel)))"
    and t: "textureSetIndices s3 = idTable (map textureSet_id (map snd (textureSets sceneModel)))"
    by (rule fillPass_objects)
  have init: "countMeshes s3 = 0" "matricesIndex s3 = 0" "eachMeshMaterialAttributesIndex s3 = 0"
      "matrices s3 = replicate (16 * ?N) 0"
      "eachMeshGeometriesPortion s3 = replicate ?N 0"
      "eachMeshMatricesPortion s3 = replicate ?N 0"
      "eachMeshOriginsPortion s3 = replicate ?N 0"
      "eachMeshTextureSet s3 = replicate ?N 0"
      "eachMeshMaterialAttributes s3 = replicate (6 * ?N) 0"
    using m by (simp_all add: meshPart_def allocate_def Let_def NUM_MATERIAL_ATTRIBUTES_def
        mult.commute)
  have mats: "\<forall>mesh \<in> set (concat (map object_meshes (map snd (objects sceneModel)))).
      length (matrix mesh) = 16"
    using assms(2) by (simp add: meshReferences_def)
  note r = fillObjects_records [OF run mats init, folded meshReferences_def, unfolded g t]
  have c: "countMeshes st = length (meshReferences sceneModel)" using r by blast
  have "length (meshReferences sceneModel) =
      sum_list (map (\<lambda>object. length (object_meshes object)) (map snd (objects sceneModel)))"
    by (simp add: meshReferences_def sum_list_length_concat comp_def)
  with c r show ?thesis by simp
qed

section \<open>Material attributes\<close>






section \<open>Primitive types\<close>





section \<open>The textures of the texture sets\<close>




subsection \<open>The tiers of the indices\<close>

lemma tier_views:
  "[a, b, c][0 := x] = [x, b, c]"
  "[a, b, c][Suc 0 := x] = [a, x, c]"
  "[a, b, c][2 := x] = [a, b, x]"
  "[a, b, c] ! 2 = c"
  by (simp_all add: numeral_2_eq_2)

lemma bucketEffect_routed:
  "routedToTier (bucketIndicesBitness (optLen (positionsCompressed b))) b s (bucketEffect b s)"
proof -
  have "bucketIndicesBitness (optLen (positionsCompressed b)) = 0 \<or>
    bucketIndicesBitness (optLen (positionsCompressed b)) = 1 \<or>
    bucketIndicesBitness (optLen (positionsCompressed b)) = 2"
    by (simp add: bucketIndicesBitness_def Let_def)
  then show ?thesis
    by (elim disjE)
      (simp_all add: tier_views routedToTier_def bucketEffect_def Let_def indexArrays_def indexCursors_def
        edgeIndexArrays_def edgeIndexCursors_def tierStore_def toUint8_def)
qed

lemma sizeBucket_sized:
  assumes "positionsCompressed b = Some pc"
  shows "sizedInTier (bucketIndicesBitness (length pc)) b z (sizeBucket b z)"
  using assms
  by (simp add: tier_views sizedInTier_def sizeBucket_def bucketIndicesBitness_def Let_def indexLengths_def
      edgeIndexLengths_def split: option.splits)

text \<open>
  Claim C2 (bit-width tiering). Let the body of the bucket loop complete on a bucket with
  positions \<open>pc\<close>, and let \<open>v\<close> be the length of \<open>pc\<close> divided by 3. If \<open>v \<le> 256\<close> the bucket
  is routed to the 8-bit tier, if \<open>256 < v \<le> 65536\<close> to the 16-bit tier, and if \<open>65536 < v\<close>
  to the 32-bit tier: its indices are set into the index array of that tier at the cursor
  of the tier, which advances by their number, its edge indices into the edge-index array
  of the same tier, the arrays and cursors of the other two tiers stay as they are, and the
  bitness tag of the bucket is the number of the tier. The pre-pass adds the numbers of the
  indices and of the edge indices of the bucket to the lengths of the same tier and to no
  other.
\<close>

theorem index_bit_width_tiering:
  assumes "fillBucket b s = Inr s'" and "positionsCompressed b = Some pc"
  shows "(real (length pc) / 3 \<le> 256 \<longrightarrow>
            routedToTier 0 b s s' \<and> sizedInTier 0 b z (sizeBucket b z)) \<and>
         (256 < real (length pc) / 3 \<and> real (length pc) / 3 \<le> 65536 \<longrightarrow>
            routedToTier 1 b s s' \<and> sizedInTier 1 b z (sizeBucket b z)) \<and>
         (65536 < real (length pc) / 3 \<longrightarrow>
            routedToTier 2 b s s' \<and> sizedInTier 2 b z (sizeBucket b z))"
proof -
  from assms(1) have s': "s' = bucketEffect b s" by (rule fillBucket_eq)
  have r: "routedToTier (bucketIndicesBitness (length pc)) b s s'"
    unfolding s' using bucketEffect_routed [of b s] assms(2) by simp
  note z = sizeBucket_sized [OF assms(2), of z]
  have 0: "real (length pc) / 3 \<le> 256 \<Longrightarrow> bucketIndicesBitness (length pc) = 0"
    by (simp add: bucketIndicesBitness_def)
  have 1: "256 < real (length pc) / 3 \<Longrightarrow> real (length pc) / 3 \<le> 65536 \<Longrightarrow>
      bucketIndicesBitness (length pc) = 1"
    by (simp add: bucketIndicesBitness_def)
  have 2: "65536 < real (length pc) / 3 \<Longrightarrow> bucketIndicesBitness (length pc) = 2"
    by (simp add: bucketIndicesBitness_def)
  show ?thesis using r z 0 1 2 by metis
qed


lemma tierScene_sizes:
  "sizePrePass tierScene =
     \<lparr>lenBuckets = 4, lenPositions = 394758, lenColors = 0, lenUVs = 0,
      lenIndices8Bit = 3, lenIndices16Bit = 6, lenIndices32Bit = 3,
      lenEdgeIndices8Bit = 2, lenEdgeIndices16Bit = 4, lenEdgeIndices32Bit = 2,
      lenMatrices = 0, lenTextures = 0, lenDecodeMatrices = 16\<rparr>"
  by (simp add: sizePrePass_def sizeGeometry_def sizeBucket_def sizeTexture_def tierScene_def
      tierBucket_def Let_def identityMatrix_def)

lemma tierScene_fillBucket:
  assumes "n \<le> 65537"
  shows "\<exists>s'. fillBucket (tierBucket n) (allocate tierScene (sizePrePass tierScene)) = Inr s'"
  using assms unfolding tierScene_sizes
  by (simp add: fillBucket_def fillBucketIndices_def fillBucketEdgeIndices_def fillBucketColors_def
      fillBucketUVs_def typedArraySet_def allocate_def tierBucket_def Let_def
      bucketIndicesBitness_def)


lemma tierScene_allocate_fields:
  "indices8Bit (allocate tierScene (sizePrePass tierScene)) = replicate 3 0"
  "indices16Bit (allocate tierScene (sizePrePass tierScene)) = replicate 6 0"
  "indices32Bit (allocate tierScene (sizePrePass tierScene)) = replicate 3 0"
  "edgeIndices8Bit (allocate tierScene (sizePrePass tierScene)) = replicate 2 0"
  "edgeIndices16Bit (allocate tierScene (sizePrePass tierScene)) = replicate 4 0"
  "edgeIndices32Bit (allocate tierScene (sizePrePass tierScene)) = replicate 2 0"
  "eachBucketIndicesBitness (allocate tierScene (sizePrePass tierScene)) = replicate 4 0"
  "indexCursors (allocate tierScene (sizePrePass tierScene)) = [0, 0, 0]"
  "edgeIndexCursors (allocate tierScene (sizePrePass tierScene)) = [0, 0, 0]"
  "countBuckets (allocate tierScene (sizePrePass tierScene)) = 0"
  unfolding tierScene_sizes
  by (simp_all add: allocate_def Let_def indexCursors_def edgeIndexCursors_def)

lemma tierScene_allocate:
  "indexArrays (allocate tierScene (sizePrePass tierScene)) = [[0, 0, 0], [0, 0, 0, 0, 0, 0], [0, 0, 0]]"
  "indexCursors (allocate tierScene (sizePrePass tierScene)) = [0, 0, 0]"
  "edgeIndexArrays (allocate tierScene (sizePrePass tierScene)) = [[0, 0], [0, 0, 0, 0], [0, 0]]"
  "edgeIndexCursors (allocate tierScene (sizePrePass tierScene)) = [0, 0, 0]"
  "eachBucketIndicesBitness (allocate tierScene (sizePrePass tierScene)) = [0, 0, 0, 0]"
  "countBuckets (allocate tierScene (sizePrePass tierScene)) = 0"
  unfolding indexArrays_def edgeIndexArrays_def tierScene_allocate_fields
  by (simp_all add: replicate_numeral_Cons)

lemma tierBucket_fields:
  "positionsCompressed (tierBucket n) = Some (replicate (3 * n) 0)"
  "indices (tierBucket n) = Some [0, 1, 2]"
  "edgeIndices (tierBucket n) = Some [0, 1]"
  by (simp_all add: tierBucket_def)

theorem index_bit_width_tiering_witness:
  "(\<exists>s'. fillBucket (tierBucket 256) (allocate tierScene (sizePrePass tierScene)) = Inr s' \<and>
      indexArrays s' = [[0, 1, 2], [0, 0, 0, 0, 0, 0], [0, 0, 0]] \<and> indexCursors s' = [3, 0, 0] \<and>
      edgeIndexArrays s' = [[0, 1], [0, 0, 0, 0], [0, 0]] \<and> edgeIndexCursors s' = [2, 0, 0] \<and>
      eachBucketIndicesBitness s' = [0, 0, 0, 0]) \<and>
   (\<exists>s'. fillBucket (tierBucket 257) (allocate tierScene (sizePrePass tierScene)) = Inr s' \<and>
      indexArrays s' = [[0, 0, 0], [0, 1, 2, 0, 0, 0], [0, 0, 0]] \<and> indexCursors s' = [0, 3, 0] \<and>
      edgeIndexArrays s' = [[0, 0], [0, 1, 0, 0], [0, 0]] \<and> edgeIndexCursors s' = [0, 2, 0] \<and>
      eachBucketIndicesBitness s' = [1, 0, 0, 0]) \<and>
   (\<exists>s'. fillBucket (tierBucket 65536) (allocate tierScene (sizePrePass tierScene)) = Inr s' \<and>
      indexArrays s' = [[0, 0, 0], [0, 1, 2, 0, 0, 0], [0, 0, 0]] \<and> indexCursors s' = [0, 3, 0] \<and>
      edgeIndexArrays s' = [[0, 0], [0, 1, 0, 0], [0, 0]] \<and> edgeIndexCursors s' = [0, 2, 0] \<and>
      eachBucketIndicesBitness s' = [1, 0, 0, 0]) \<and>
   (\<exists>s'. fillBucket (tierBucket 65537) (allocate tierScene (sizePrePass tierScene)) = Inr s' \<and>
      indexArrays s' = [[0, 0, 0], [0, 0, 0, 0, 0, 0], [0, 1, 2]] \<and> indexCursors s' = [0, 0, 3] \<and>
      edgeIndexArrays s' = [[0, 0], [0, 0, 0, 0], [0, 1]] \<and> edgeIndexCursors s' = [0, 0, 2] \<and>
      eachBucketIndicesBitness s' = [2, 0, 0, 0]) \<and>
   (\<forall>z. indexLengths (sizeBucket (tierBucket 256) z) =
          [lenIndices8Bit z + 3, lenIndices16Bit z, lenIndices32Bit z] \<and>
        indexLengths (sizeBucket (tierBucket 257) z) =
          [lenIndices8Bit z, lenIndices16Bit z + 3, lenIndices32Bit z] \<and>
        indexLengths (sizeBucket (tierBucket 65536) z) =
          [lenIndices8Bit z, lenIndices16Bit z + 3, lenIndices32Bit z] \<and>
        indexLengths (sizeBucket (tierBucket 65537) z) =
          [lenIndices8Bit z, lenIndices16Bit z, lenIndices32Bit z + 3])"
proof -
  let ?s = "allocate tierScene (sizePrePass tierScene)"
  note defs = tier_views routedToTier_def sizedInTier_def tierScene_allocate tierBucket_fields tierStore_def
    splice_def toUint8_def toUint16_def toUint32_def indexLengths_def
  obtain s1 where 1: "fillBucket (tierBucket 256) ?s = Inr s1"
    using tierScene_fillBucket [of 256] by auto
  obtain s2 where 2: "fillBucket (tierBucket 257) ?s = Inr s2"
    using tierScene_fillBucket [of 257] by auto
  obtain s3 where 3: "fillBucket (tierBucket 65536) ?s = Inr s3"
    using tierScene_fillBucket [of 65536] by auto
  obtain s4 where 4: "fillBucket (tierBucket 65537) ?s = Inr s4"
    using tierScene_fillBucket [of 65537] by auto
  note t1 = index_bit_width_tiering [OF 1 tierBucket_fields(1)]
  note t2 = index_bit_width_tiering [OF 2 tierBucket_fields(1)]
  note t3 = index_bit_width_tiering [OF 3 tierBucket_fields(1)]
  note t4 = index_bit_width_tiering [OF 4 tierBucket_fields(1)]
  have a: "indexArrays s1 = [[0, 1, 2], [0, 0, 0, 0, 0, 0], [0, 0, 0]] \<and> indexCursors s1 = [3, 0, 0] \<and>
      edgeIndexArrays s1 = [[0, 1], [0, 0, 0, 0], [0, 0]] \<and> edgeIndexCursors s1 = [2, 0, 0] \<and>
      eachBucketIndicesBitness s1 = [0, 0, 0, 0]"
    using t1 by (simp add: defs)
  have b: "indexArrays s2 = [[0, 0, 0], [0, 1, 2, 0, 0, 0], [0, 0, 0]] \<and> indexCursors s2 = [0, 3, 0] \<and>
      edgeIndexArrays s2 = [[0, 0], [0, 1, 0, 0], [0, 0]] \<and> edgeIndexCursors s2 = [0, 2, 0] \<and>
      eachBucketIndicesBitness s2 = [1, 0, 0, 0]"
    using t2 by (simp add: defs)
  have c: "indexArrays s3 = [[0, 0, 0], [0, 1, 2, 0, 0, 0], [0, 0, 0]] \<and> indexCursors s3 = [0, 3, 0] \<and>
      edgeIndexArrays s3 = [[0, 0], [0, 1, 0, 0], [0, 0]] \<and> edgeIndexCursors s3 = [0, 2, 0] \<and>
      eachBucketIndicesBitness s3 = [1, 0, 0, 0]"
    using t3 by (simp add: defs)
  have d: "indexArrays s4 = [[0, 0, 0], [0, 0, 0, 0, 0, 0], [0, 1, 2]] \<and> indexCursors s4 = [0, 0, 3] \<and>
      edgeIndexArrays s4 = [[0, 0], [0, 0, 0, 0], [0, 1]] \<and> edgeIndexCursors s4 = [0, 0, 2] \<and>
      eachBucketIndicesBitness s4 = [2, 0, 0, 0]"
    using t4 by (simp add: defs)
  have e: "indexLengths (sizeBucket (tierBucket 256) z) =
          [lenIndices8Bit z + 3, lenIndices16Bit z, lenIndices32Bit z] \<and>
        indexLengths (sizeBucket (tierBucket 257) z) =
          [lenIndices8Bit z, lenIndices16Bit z + 3, lenIndices32Bit z] \<and>
        indexLengths (sizeBucket (tierBucket 65536) z) =
          [lenIndices8Bit z, lenIndices16Bit z + 3, lenIndices32Bit z] \<and>
        indexLengths (sizeBucket (tierBucket 65537) z) =
          [lenIndices8Bit z, lenIndices16Bit z, lenIndices32Bit z + 3]" for z
    using t1 [of z] t2 [of z] t3 [of z] t4 [of z] by (simp add: defs)
  from 1 2 3 4 a b c d e show ?thesis by blast
qed


section \<open>The sentinel of an absent reference\<close>




subsection \<open>The table of origins\<close>

text \<open>
  The key of an origin joins the strings of its three coordinates with minus signs. Two
  strings of the number format that are followed by a minus sign and give the same text are
  the same string, so the key determines the three strings.
\<close>

lemma minusOnlyAfterE_split:
  assumes "minusOnlyAfterE p s" "minusOnlyAfterE p s'"
    and "s @ CHR ''-'' # r = s' @ CHR ''-'' # r'"
  shows "s = s' \<and> r = r'"
  using assms
proof (induction s arbitrary: p s')
  case Nil
  show ?case
  proof (cases s')
    case Nil
    with Nil.prems show ?thesis by simp
  next
    case (Cons c t)
    with Nil.prems(3) have "c = CHR ''-''" by simp
    with Nil.prems(1,2) Cons show ?thesis by simp
  qed
next
  case (Cons c s)
  show ?case
  proof (cases s')
    case Nil
    with Cons.prems(3) have "c = CHR ''-''" by simp
    with Cons.prems(1,2) Nil show ?thesis by simp
  next
    case (Cons c' t)
    with Cons.prems(3) have c: "c' = c" and e: "s @ CHR ''-'' # r = t @ CHR ''-'' # r'" by simp_all
    from Cons.prems(1) have 1: "minusOnlyAfterE c s" by simp
    from Cons.prems(2) Cons c have 2: "minusOnlyAfterE c t" by simp
    from Cons.IH [OF 1 2 e] Cons c show ?thesis by simp
  qed
qed

lemma numberFormat_split:
  assumes "numberFormat s" "numberFormat s'"
    and "s @ CHR ''-'' # r = s' @ CHR ''-'' # r'"
  shows "s = s' \<and> r = r'"
proof -
  from assms(1) obtain c t where s: "s = c # t" and 1: "minusOnlyAfterE c t"
    by (cases s) (simp_all add: numberFormat_def)
  from assms(2) obtain c' t' where s': "s' = c' # t'" and 2: "minusOnlyAfterE c' t'"
    by (cases s') (simp_all add: numberFormat_def)
  from assms(3) s s' have c: "c' = c" and e: "t @ CHR ''-'' # r = t' @ CHR ''-'' # r'"
    by simp_all
  from minusOnlyAfterE_split [OF 1 2 [unfolded c] e] s s' c show ?thesis by simp
qed

lemma originHash_inject:
  assumes "numberFormat (numberToString E x)" "numberFormat (numberToString E y)"
    and "numberFormat (numberToString E x')" "numberFormat (numberToString E y')"
    and "originHash E (x, y, z) = originHash E (x', y', z')"
  shows "numberToString E x = numberToString E x' \<and> numberToString E y = numberToString E y' \<and>
    numberToString E z = numberToString E z'"
proof -
  from assms(5) have e: "numberToString E x @ CHR ''-'' # (numberToString E y @ CHR ''-'' # numberToString E z)
      = numberToString E x' @ CHR ''-'' # (numberToString E y' @ CHR ''-'' # numberToString E z')"
    by (simp add: originHash_def)
  from numberFormat_split [OF assms(1,3) e]
  have 1: "numberToString E x = numberToString E x'"
    and r: "numberToString E y @ CHR ''-'' # numberToString E z =
      numberToString E y' @ CHR ''-'' # numberToString E z'"
    by simp_all
  from numberFormat_split [OF assms(2,4) r] 1 show ?thesis by simp
qed

lemma faithful_originHash:
  assumes "faithfulNumberToString E C"
    and "{fst a, fst (snd a), snd (snd a)} \<subseteq> C" "{fst b, fst (snd b), snd (snd b)} \<subseteq> C"
  shows "originHash E a = originHash E b \<longleftrightarrow> a = b"
proof
  assume h: "originHash E a = originHash E b"
  obtain x y z where a: "a = (x, y, z)" by (cases a) auto
  obtain x' y' z' where b: "b = (x', y', z')" by (cases b) auto
  from assms(2,3) a b have mem: "x \<in> C" "y \<in> C" "z \<in> C" "x' \<in> C" "y' \<in> C" "z' \<in> C"
    by simp_all
  from assms(1) mem have f: "numberFormat (numberToString E x)" "numberFormat (numberToString E y)"
    "numberFormat (numberToString E x')" "numberFormat (numberToString E y')"
    by (simp_all add: faithfulNumberToString_def)
  from originHash_inject [OF f h [unfolded a b]]
  have "numberToString E x = numberToString E x'" "numberToString E y = numberToString E y'"
    "numberToString E z = numberToString E z'" by simp_all
  with assms(1) mem have "x = x'" "y = y'" "z = z'"
    unfolding faithfulNumberToString_def by blast+
  with a b show "a = b" by simp
next
  assume "a = b"
  then show "originHash E a = originHash E b" by simp
qed

lemma firstsBy_Nil [simp]: "firstsBy key [] = []"
  by (simp add: firstsBy_def)

lemma firstsBy_snoc:
  "firstsBy key (xs @ [x]) =
     (if key x \<in> key ` set (firstsBy key xs) then firstsBy key xs else firstsBy key xs @ [x])"
  by (simp add: firstsBy_def)

lemma firstsBy_keys: "key ` set (firstsBy key xs) = key ` set xs"
  by (induction xs rule: rev_induct) (auto simp: firstsBy_snoc)

lemma firstsBy_subset: "set (firstsBy key xs) \<subseteq> set xs"
  by (induction xs rule: rev_induct) (auto simp: firstsBy_snoc)

lemma firstsBy_distinct: "distinct (map key (firstsBy key xs))"
  by (induction xs rule: rev_induct) (auto simp: firstsBy_snoc)

lemma firstsBy_length: "length (firstsBy key xs) = card (key ` set xs)"
proof -
  have "length (firstsBy key xs) = length (map key (firstsBy key xs))" by simp
  also have "\<dots> = card (set (map key (firstsBy key xs)))"
    using distinct_card [OF firstsBy_distinct [of key xs]] by simp
  also have "\<dots> = card (key ` set xs)" using firstsBy_keys [of key xs] by simp
  finally show ?thesis .
qed

lemma firstsBy_length_le: "length (firstsBy key xs) \<le> length xs"
  by (induction xs rule: rev_induct) (auto simp: firstsBy_snoc)


lemma fillObjects_origins:
  assumes run: "foldE (fillObject E) os s = Inr s'"
    and init: "originLookup s = Map.empty" "originsIndex s = 0" "countMeshes s = 0"
  shows "originsIndex s' = 3 * length (firstsBy (meshOriginKey E) (concat (map object_meshes os)))"
    and "length (origins s') = length (origins s)"
    and "\<forall>j < length (concat (map object_meshes os)). j < length (eachMeshOriginsPortion s') \<longrightarrow>
          eachMeshOriginsPortion s' ! j =
            toUint32 (3 * the (idTable (map (meshOriginKey E)
                                  (firstsBy (meshOriginKey E) (concat (map object_meshes os))))
                                (meshOriginKey E (concat (map object_meshes os) ! j))))"
    and "\<forall>i < length (firstsBy (meshOriginKey E) (concat (map object_meshes os))).
          3 * i + 2 < length (origins s') \<longrightarrow>
          (origins s' ! (3 * i), origins s' ! (3 * i + 1), origins s' ! (3 * i + 2)) =
            origin (firstsBy (meshOriginKey E) (concat (map object_meshes os)) ! i)"
proof -
  let ?H = "meshOriginKey E"
  let ?fs = "\<lambda>zs. firstsBy ?H zs"
  let ?ks = "\<lambda>zs. map ?H (firstsBy ?H zs)"
  let ?I = "\<lambda>(zs :: Mesh list) (t :: FillState).
      (\<forall>h. originLookup t h = map_option (\<lambda>i. 3 * i) (idTable (?ks zs) h)) \<and>
      originsIndex t = 3 * length (?fs zs) \<and>
      countMeshes t = length zs \<and>
      length (origins t) = length (origins s) \<and>
      (\<forall>j < length zs. j < length (eachMeshOriginsPortion t) \<longrightarrow>
          eachMeshOriginsPortion t ! j = toUint32 (3 * the (idTable (?ks zs) (?H (zs ! j))))) \<and>
      (\<forall>i < length (?fs zs). 3 * i + 2 < length (origins t) \<longrightarrow>
          (origins t ! (3 * i), origins t ! (3 * i + 1), origins t ! (3 * i + 2)) =
            origin (?fs zs ! i))"
  have "?I (concat (map object_meshes os)) s'"
  proof (rule fillObjects_induct [OF run, where I = ?I])
    show "?I [] s" using init by simp
  next
    fix zs t a b
    assume "?I zs t"
    then show "?I zs (t\<lparr>eachObjectId := a, eachObjectMeshesPortion := b\<rparr>)" by simp
  next
    fix zs t n
    assume "?I zs t"
    then show "?I zs (t\<lparr>objectIndex := n\<rparr>)" by simp
  next
    fix zs :: "Mesh list" and x t t'
    assume I: "?I zs t" and step: "fillMesh E x t = Inr t'"
    from I have tbl: "\<And>h. originLookup t h = map_option (\<lambda>i. 3 * i) (idTable (?ks zs) h)"
      and idx: "originsIndex t = 3 * length (?fs zs)"
      and cnt: "countMeshes t = length zs"
      and len: "length (origins t) = length (origins s)"
      and por: "\<And>j. j < length zs \<Longrightarrow> j < length (eachMeshOriginsPortion t) \<Longrightarrow>
          eachMeshOriginsPortion t ! j = toUint32 (3 * the (idTable (?ks zs) (?H (zs ! j))))"
      and org: "\<And>i. i < length (?fs zs) \<Longrightarrow> 3 * i + 2 < length (origins t) \<Longrightarrow>
          (origins t ! (3 * i), origins t ! (3 * i + 1), origins t ! (3 * i + 2)) =
            origin (?fs zs ! i)"
      by blast+
    note f = fillMesh_fields [OF step, folded meshOriginKey_def]
    have c': "countMeshes t' = length (zs @ [x])" using f(2) cnt by simp
    have keys: "set (?ks zs) = ?H ` set zs" using firstsBy_keys [of ?H zs] by simp
    show "?I (zs @ [x]) t'"
    proof (cases "originLookup t (?H x)")
      case (Some k)
      with tbl [of "?H x"] obtain i where i: "idTable (?ks zs) (?H x) = Some i" and k: "k = 3 * i"
        by (cases "idTable (?ks zs) (?H x)") auto
      from idTable_Some [OF i] have "?H x \<in> set (?ks zs)" by (metis nth_mem)
      then have mem: "?H x \<in> ?H ` set (?fs zs)" by simp
      have fs: "?fs (zs @ [x]) = ?fs zs" using mem by (simp add: firstsBy_snoc)
      have 1: "originLookup t' = originLookup t" using f(11) Some by simp
      have 2: "origins t' = origins t" using f(12) Some by simp
      have 3: "originsIndex t' = originsIndex t" using f(13) Some by simp
      have 4: "eachMeshOriginsPortion t' = (eachMeshOriginsPortion t)[length zs := toUint32 (3 * i)]"
        using f(8) Some k cnt by simp
      have por': "\<forall>j < length (zs @ [x]). j < length (eachMeshOriginsPortion t') \<longrightarrow>
          eachMeshOriginsPortion t' ! j =
            toUint32 (3 * the (idTable (?ks (zs @ [x])) (?H ((zs @ [x]) ! j))))"
      proof (intro allI impI)
        fix j assume j: "j < length (zs @ [x])" and r: "j < length (eachMeshOriginsPortion t')"
        show "eachMeshOriginsPortion t' ! j =
            toUint32 (3 * the (idTable (?ks (zs @ [x])) (?H ((zs @ [x]) ! j))))"
        proof (cases "j = length zs")
          case True
          with r 4 i show ?thesis unfolding fs by simp
        next
          case False
          with j have lt: "j < length zs" by simp
          with r 4 por [of j] False show ?thesis unfolding fs by (simp add: nth_append)
        qed
      qed
      show ?thesis
        unfolding fs 1 2 3 using tbl idx c' len org por' [unfolded fs] by simp
    next
      case None
      with tbl [of "?H x"] have n: "idTable (?ks zs) (?H x) = None" by simp
      have notin: "?H x \<notin> set (?ks zs)"
      proof
        assume "?H x \<in> set (?ks zs)"
        from idTable_member [OF this] n show False by simp
      qed
      then have nm: "?H x \<notin> ?H ` set (?fs zs)" by simp
      have fs: "?fs (zs @ [x]) = ?fs zs @ [x]" using nm by (simp add: firstsBy_snoc)
      have ks: "?ks (zs @ [x]) = ?ks zs @ [?H x]" unfolding fs by simp
      have it: "idTable (?ks (zs @ [x])) = (idTable (?ks zs))(?H x \<mapsto> length (?fs zs))"
        unfolding ks idTable_snoc by simp
      have 1: "originLookup t' = (originLookup t)(?H x \<mapsto> 3 * length (?fs zs))"
        using f(11) None idx by simp
      have 2: "origins t' = (origins t)
          [3 * length (?fs zs) := fst (origin x),
           3 * length (?fs zs) + 1 := fst (snd (origin x)),
           3 * length (?fs zs) + 2 := snd (snd (origin x))]"
        using f(12) None idx by simp
      have 3: "originsIndex t' = 3 * length (?fs zs) + 3" using f(13) None idx by simp
      have 4: "eachMeshOriginsPortion t' =
          (eachMeshOriginsPortion t)[length zs := toUint32 (3 * length (?fs zs))]"
        using f(8) None idx cnt by simp
      have tbl': "\<forall>h. originLookup t' h = map_option (\<lambda>i. 3 * i) (idTable (?ks (zs @ [x])) h)"
        unfolding 1 it using tbl by simp
      have idx': "originsIndex t' = 3 * length (?fs (zs @ [x]))" unfolding 3 fs by simp
      have len': "length (origins t') = length (origins s)" unfolding 2 using len by simp
      have por': "\<forall>j < length (zs @ [x]). j < length (eachMeshOriginsPortion t') \<longrightarrow>
          eachMeshOriginsPortion t' ! j =
            toUint32 (3 * the (idTable (?ks (zs @ [x])) (?H ((zs @ [x]) ! j))))"
      proof (intro allI impI)
        fix j assume j: "j < length (zs @ [x])" and r: "j < length (eachMeshOriginsPortion t')"
        show "eachMeshOriginsPortion t' ! j =
            toUint32 (3 * the (idTable (?ks (zs @ [x])) (?H ((zs @ [x]) ! j))))"
        proof (cases "j = length zs")
          case True
          with r 4 show ?thesis unfolding it by simp
        next
          case False
          with j have lt: "j < length zs" by simp
          then have "?H (zs ! j) \<in> set (?ks zs)" unfolding keys by simp
          with notin have ne: "?H (zs ! j) \<noteq> ?H x" by metis
          from lt r 4 por [of j] False ne show ?thesis unfolding it by (simp add: nth_append)
        qed
      qed
      have org': "\<forall>i < length (?fs (zs @ [x])). 3 * i + 2 < length (origins t') \<longrightarrow>
          (origins t' ! (3 * i), origins t' ! (3 * i + 1), origins t' ! (3 * i + 2)) =
            origin (?fs (zs @ [x]) ! i)"
      proof (intro allI impI)
        fix i assume i: "i < length (?fs (zs @ [x]))" and r: "3 * i + 2 < length (origins t')"
        from r have r0: "3 * i + 2 < length (origins t)" unfolding 2 by simp
        show "(origins t' ! (3 * i), origins t' ! (3 * i + 1), origins t' ! (3 * i + 2)) =
            origin (?fs (zs @ [x]) ! i)"
        proof (cases "i = length (?fs zs)")
          case True
          with r0 show ?thesis unfolding 2 fs by (simp add: nth_list_update)
        next
          case False
          with i have lt: "i < length (?fs zs)" unfolding fs by simp
          with org [OF lt r0] show ?thesis unfolding 2 fs by (simp add: nth_append nth_list_update)
        qed
      qed
      from tbl' idx' c' len' por' org' show ?thesis by blast
    qed
  qed
  then show "originsIndex s' = 3 * length (firstsBy (meshOriginKey E) (concat (map object_meshes os)))"
    and "length (origins s') = length (origins s)"
    and "\<forall>j < length (concat (map object_meshes os)). j < length (eachMeshOriginsPortion s') \<longrightarrow>
          eachMeshOriginsPortion s' ! j =
            toUint32 (3 * the (idTable (map (meshOriginKey E)
                                  (firstsBy (meshOriginKey E) (concat (map object_meshes os))))
                                (meshOriginKey E (concat (map object_meshes os) ! j))))"
    and "\<forall>i < length (firstsBy (meshOriginKey E) (concat (map object_meshes os))).
          3 * i + 2 < length (origins s') \<longrightarrow>
          (origins s' ! (3 * i), origins s' ! (3 * i + 1), origins s' ! (3 * i + 2)) =
            origin (firstsBy (meshOriginKey E) (concat (map object_meshes os)) ! i)"
    by blast+
qed


lemma fillPass_origins:
  assumes run: "fillPass E sceneModel = Inr st"
    and mats: "\<forall>mesh \<in> set (meshReferences sceneModel). length (matrix mesh) = 16"
  shows "originsIndex st = 3 * length (firstsBy (meshOriginKey E) (meshReferences sceneModel))"
    and "length (origins st) = 16 * length (meshes sceneModel)"
    and "length (meshReferences sceneModel) \<le> length (meshes sceneModel)"
    and "length (eachMeshOriginsPortion st) = length (meshes sceneModel)"
    and "\<forall>j < length (meshReferences sceneModel).
          eachMeshOriginsPortion st ! j =
            toUint32 (3 * the (idTable (map (meshOriginKey E)
                                  (firstsBy (meshOriginKey E) (meshReferences sceneModel)))
                                (meshOriginKey E (meshReferences sceneModel ! j))))"
    and "\<forall>i < length (firstsBy (meshOriginKey E) (meshReferences sceneModel)).
          3 * i + 2 < length (origins st) \<longrightarrow>
          (origins st ! (3 * i), origins st ! (3 * i + 1), origins st ! (3 * i + 2)) =
            origin (firstsBy (meshOriginKey E) (meshReferences sceneModel) ! i)"
proof -
  let ?s0 = "allocate sceneModel (sizePrePass sceneModel)"
  from run obtain s3 where
    loop: "foldE (fillObject E) (map snd (objects sceneModel)) s3 = Inr st"
    and m: "meshPart s3 = meshPart ?s0"
    by (rule fillPass_objects)
  have init: "originLookup s3 = Map.empty" "originsIndex s3 = 0" "countMeshes s3 = 0"
    and o: "length (origins s3) = 16 * length (meshes sceneModel)"
    using m by (simp_all add: meshPart_def allocate_def Let_def mult.commute)
  note r = fillPass_mesh_records [OF run mats]
  have le: "length (meshReferences sceneModel) \<le> length (meshes sceneModel)" using r by simp
  have lp: "length (eachMeshOriginsPortion st) = length (meshes sceneModel)" using r by blast
  note g = fillObjects_origins [OF loop init, folded meshReferences_def]
  show "originsIndex st = 3 * length (firstsBy (meshOriginKey E) (meshReferences sceneModel))"
    by (rule g(1))
  show "length (origins st) = 16 * length (meshes sceneModel)" using g(2) o by simp
  show "length (meshReferences sceneModel) \<le> length (meshes sceneModel)" by (rule le)
  show "length (eachMeshOriginsPortion st) = length (meshes sceneModel)" by (rule lp)
  show "\<forall>j < length (meshReferences sceneModel).
          eachMeshOriginsPortion st ! j =
            toUint32 (3 * the (idTable (map (meshOriginKey E)
                                  (firstsBy (meshOriginKey E) (meshReferences sceneModel)))
                                (meshOriginKey E (meshReferences sceneModel ! j))))"
    using g(3) le lp by simp
  show "\<forall>i < length (firstsBy (meshOriginKey E) (meshReferences sceneModel)).
          3 * i + 2 < length (origins st) \<longrightarrow>
          (origins st ! (3 * i), origins st ! (3 * i + 1), origins st ! (3 * i + 2)) =
            origin (firstsBy (meshOriginKey E) (meshReferences sceneModel) ! i)"
    by (rule g(4))
qed

lemma originCoordinates_member:
  "mesh \<in> set (meshReferences sceneModel) \<Longrightarrow>
     {fst (origin mesh), fst (snd (origin mesh)), snd (snd (origin mesh))}
       \<subseteq> originCoordinates sceneModel"
  unfolding originCoordinates_def by blast

lemma faithful_meshOriginKey:
  assumes "faithfulNumberToString E (originCoordinates sceneModel)"
    and "a \<in> set (meshReferences sceneModel)" "b \<in> set (meshReferences sceneModel)"
  shows "meshOriginKey E a = meshOriginKey E b \<longleftrightarrow> origin a = origin b"
  unfolding meshOriginKey_def
  by (rule faithful_originHash [OF assms(1) originCoordinates_member [OF assms(2)]
        originCoordinates_member [OF assms(3)]])

text \<open>
  Claim C4 (origin deduplication). Let the encoding complete on a model whose meshes carry
  matrices of 16 elements, let the conversion of numbers to strings be faithful on the
  coordinates of the origins in use, and let three times the number of mesh references stay
  below \<open>2\<^sup>3\<^sup>2\<close>. Then the origins array holds one entry of three coordinates for every
  distinct origin and no more: the cursor of the array ends at three times the number of
  distinct origins. Two mesh records hold the same offset in \<^verbatim>\<open>eachMeshOriginsPortion\<close>
  exactly when the origins of their meshes are equal in all three coordinates, and at the
  offset of a mesh record the origins array holds the three coordinates of its mesh. The key
  of the table is the string \<^verbatim>\<open>`${x}-${y}-${z}`\<close>; under the hypothesis on the conversion it
  identifies the triple of coordinates. Numbers are reals here, so the two zeros and the NaNs
  of the doubles are not told apart.
\<close>

theorem origin_deduplication:
  assumes run: "fillPass E sceneModel = Inr st"
    and mats: "\<forall>mesh \<in> set (meshReferences sceneModel). length (matrix mesh) = 16"
    and faithful: "faithfulNumberToString E (originCoordinates sceneModel)"
    and bound: "3 * length (meshReferences sceneModel) < 2 ^ 32"
  shows "originsIndex st = 3 * card (origin ` set (meshReferences sceneModel)) \<and>
    (\<forall>j < length (meshReferences sceneModel). \<forall>k < length (meshReferences sceneModel).
        eachMeshOriginsPortion st ! j = eachMeshOriginsPortion st ! k \<longleftrightarrow>
        origin (meshReferences sceneModel ! j) = origin (meshReferences sceneModel ! k)) \<and>
    (\<forall>j < length (meshReferences sceneModel).
        eachMeshOriginsPortion st ! j + 2 < originsIndex st \<and>
        originsIndex st \<le> length (origins st) \<and>
        (origins st ! (eachMeshOriginsPortion st ! j),
         origins st ! (eachMeshOriginsPortion st ! j + 1),
         origins st ! (eachMeshOriginsPortion st ! j + 2)) = origin (meshReferences sceneModel ! j))"
proof -
  let ?refs = "meshReferences sceneModel"
  let ?H = "meshOriginKey E"
  let ?fs = "firstsBy ?H ?refs"
  let ?ks = "map ?H ?fs"
  let ?P = "eachMeshOriginsPortion st"
  note g = fillPass_origins [OF run mats]
  have fle: "length ?fs \<le> length ?refs" by (rule firstsBy_length_le)
  have sub: "set ?fs \<subseteq> set ?refs" by (rule firstsBy_subset)
  have keys: "set ?ks = ?H ` set ?refs" using firstsBy_keys [of ?H ?refs] by simp
  have pos: "\<exists>i. i < length ?fs \<and> ?H (?fs ! i) = ?H (?refs ! j) \<and>
      idTable ?ks (?H (?refs ! j)) = Some i \<and> ?P ! j = 3 * i"
    if j: "j < length ?refs" for j
  proof -
    from j have "?H (?refs ! j) \<in> set ?ks" unfolding keys by simp
    from idTable_member [OF this] obtain i where i: "idTable ?ks (?H (?refs ! j)) = Some i" ..
    from idTable_Some [OF i] have lt: "i < length ?fs" and k0: "?ks ! i = ?H (?refs ! j)"
      by simp_all
    from k0 lt have k: "?H (?fs ! i) = ?H (?refs ! j)" by simp
    from lt fle bound have "3 * i < 2 ^ 32" by simp
    then have "toUint32 (3 * i) = 3 * i" by (simp add: toUint32_def)
    with g(5) j i have "?P ! j = 3 * i" by simp
    with lt k i show ?thesis by blast
  qed
  have card: "length ?fs = card (origin ` set ?refs)"
  proof -
    have "inj_on (originHash E) (origin ` set ?refs)"
    proof (rule inj_onI)
      fix a b assume "a \<in> origin ` set ?refs" "b \<in> origin ` set ?refs"
        and e: "originHash E a = originHash E b"
      then obtain x y where x: "x \<in> set ?refs" "a = origin x" and y: "y \<in> set ?refs" "b = origin y"
        by blast
      from faithful_meshOriginKey [OF faithful x(1) y(1)] e x(2) y(2)
      show "a = b" by (simp add: meshOriginKey_def)
    qed
    then have "card (originHash E ` origin ` set ?refs) = card (origin ` set ?refs)"
      by (rule card_image)
    moreover have "?H ` set ?refs = originHash E ` origin ` set ?refs"
      by (auto simp: meshOriginKey_def)
    ultimately show ?thesis using firstsBy_length [of ?H ?refs] by simp
  qed
  have 1: "originsIndex st = 3 * card (origin ` set ?refs)" using g(1) card by simp
  have 2: "\<forall>j < length ?refs. \<forall>k < length ?refs.
        ?P ! j = ?P ! k \<longleftrightarrow> origin (?refs ! j) = origin (?refs ! k)"
  proof (intro allI impI)
    fix j k assume j: "j < length ?refs" and k: "k < length ?refs"
    from pos [OF j] obtain i where i: "i < length ?fs" "?H (?fs ! i) = ?H (?refs ! j)"
      "idTable ?ks (?H (?refs ! j)) = Some i" "?P ! j = 3 * i" by blast
    from pos [OF k] obtain i' where i': "i' < length ?fs" "?H (?fs ! i') = ?H (?refs ! k)"
      "idTable ?ks (?H (?refs ! k)) = Some i'" "?P ! k = 3 * i'" by blast
    have "?P ! j = ?P ! k \<longleftrightarrow> i = i'" using i(4) i'(4) by simp
    also have "\<dots> \<longleftrightarrow> ?H (?refs ! j) = ?H (?refs ! k)"
    proof
      assume "i = i'"
      with i(2) i'(2) show "?H (?refs ! j) = ?H (?refs ! k)" by simp
    next
      assume "?H (?refs ! j) = ?H (?refs ! k)"
      with i(3) i'(3) show "i = i'" by simp
    qed
    also have "\<dots> \<longleftrightarrow> origin (?refs ! j) = origin (?refs ! k)"
      using j k by (intro faithful_meshOriginKey [OF faithful]) simp_all
    finally show "?P ! j = ?P ! k \<longleftrightarrow> origin (?refs ! j) = origin (?refs ! k)" .
  qed
  have 3: "\<forall>j < length ?refs.
        ?P ! j + 2 < originsIndex st \<and> originsIndex st \<le> length (origins st) \<and>
        (origins st ! (?P ! j), origins st ! (?P ! j + 1), origins st ! (?P ! j + 2)) =
          origin (?refs ! j)"
  proof (intro allI impI)
    fix j assume j: "j < length ?refs"
    from pos [OF j] obtain i where i: "i < length ?fs" "?H (?fs ! i) = ?H (?refs ! j)"
      "?P ! j = 3 * i" by blast
    from i(1) have a: "?P ! j + 2 < originsIndex st" unfolding g(1) i(3) by simp
    from fle g(3) have b: "originsIndex st \<le> length (origins st)" unfolding g(1) g(2) by simp
    from a b have "3 * i + 2 < length (origins st)" unfolding i(3) by simp
    with g(6) i(1) have c: "(origins st ! (3 * i), origins st ! (3 * i + 1), origins st ! (3 * i + 2)) =
        origin (?fs ! i)" by blast
    from i(1) sub have "?fs ! i \<in> set ?refs" by (meson nth_mem subsetD)
    moreover from j have "?refs ! j \<in> set ?refs" by simp
    ultimately have "origin (?fs ! i) = origin (?refs ! j)"
      using faithful_meshOriginKey [OF faithful] i(2) by blast
    with a b c show "?P ! j + 2 < originsIndex st \<and> originsIndex st \<le> length (origins st) \<and>
        (origins st ! (?P ! j), origins st ! (?P ! j + 1), origins st ! (?P ! j + 2)) =
          origin (?refs ! j)" unfolding i(3) by simp
  qed
  from 1 2 3 show ?thesis by blast
qed


theorem origin_deduplication_witness:
  "\<exists>st. fillPass exampleEnv exampleScene = Inr st \<and>
        originsIndex st = 6 \<and>
        eachMeshOriginsPortion st ! 0 = eachMeshOriginsPortion st ! 1 \<and>
        eachMeshOriginsPortion st ! 1 \<noteq> eachMeshOriginsPortion st ! 2 \<and>
        (origins st ! (eachMeshOriginsPortion st ! 2),
         origins st ! (eachMeshOriginsPortion st ! 2 + 1),
         origins st ! (eachMeshOriginsPortion st ! 2 + 2)) = (1, 2, 30000001 / 10000000)"
proof -
  from exampleScene_fillPass obtain st where st: "fillPass exampleEnv exampleScene = Inr st" ..
  have refs: "meshReferences exampleScene = [mesh1, mesh2, mesh3]"
    by (simp add: meshReferences_def exampleScene_def)
  have m: "\<forall>mesh \<in> set (meshReferences exampleScene). length (matrix mesh) = 16"
    by (simp add: refs mesh1_def mesh2_def mesh3_def identityMatrix_def)
  have o: "origin mesh1 = (1, 2, 3)" "origin mesh2 = (1, 2, 3)"
    "origin mesh3 = (1, 2, 30000001 / 10000000)"
    by (simp_all add: mesh1_def mesh2_def mesh3_def)
  have C: "originCoordinates exampleScene = {1, 2, 3, 30000001 / 10000000}"
    unfolding originCoordinates_def refs by (auto simp: o)
  have f: "faithfulNumberToString exampleEnv (originCoordinates exampleScene)"
    unfolding C by (simp add: faithfulNumberToString_def exampleEnv_def numberFormat_def)
  have b: "3 * length (meshReferences exampleScene) < 2 ^ 32" by (simp add: refs)
  have im: "origin ` set (meshReferences exampleScene) = {(1, 2, 3), (1, 2, 30000001 / 10000000)}"
    unfolding refs by (auto simp: o)
  have c: "card (origin ` set (meshReferences exampleScene)) = 2" unfolding im by simp
  note r = origin_deduplication [OF st m f b]
  note A = r [THEN conjunct2, THEN conjunct1, rule_format]
  note B = r [THEN conjunct2, THEN conjunct2, rule_format, THEN conjunct2, THEN conjunct2]
  have n: "meshReferences exampleScene ! 0 = mesh1" "meshReferences exampleScene ! 1 = mesh2"
    "meshReferences exampleScene ! 2 = mesh3"
    "(0::nat) < length (meshReferences exampleScene)" "1 < length (meshReferences exampleScene)"
    "2 < length (meshReferences exampleScene)"
    by (simp_all add: refs numeral_2_eq_2)
  from r c have 1: "originsIndex st = 6" by simp
  from A [OF n(4) n(5)] have 2: "eachMeshOriginsPortion st ! 0 = eachMeshOriginsPortion st ! 1"
    unfolding n by (simp add: o)
  from A [OF n(5) n(6)] have 3: "eachMeshOriginsPortion st ! 1 \<noteq> eachMeshOriginsPortion st ! 2"
    unfolding n by (simp add: o)
  from B [OF n(6)] have 4: "(origins st ! (eachMeshOriginsPortion st ! 2),
         origins st ! (eachMeshOriginsPortion st ! 2 + 1),
         origins st ! (eachMeshOriginsPortion st ! 2 + 2)) = (1, 2, 30000001 / 10000000)"
    unfolding n o .
  from st 1 2 3 4 show ?thesis by blast
qed


section \<open>Mesh records and mesh references\<close>



section \<open>A bucket without positions\<close>

text \<open>
  Claim C9. A bucket whose positions are absent is skipped by the size pre-pass, which adds
  nothing for it to any length. The fill pass does not test the field: its first statement
  on the bucket reads the length of the absent array, which is a \<open>TypeError\<close>, so the
  encoding of a scene with such a bucket does not complete. The statement is for every
  state \<open>s\<close> of the fill pass, every record \<open>z\<close> of lengths and every environment \<open>E\<close>.
\<close>

theorem absent_positions_abort_fill:
  "sizeBucket emptyBucket z = z \<and>
   fillBucket emptyBucket s = Inl TypeError \<and>
   modelToDTX E emptyBucketScene = Inl TypeError"
  by (simp add: modelToDTX_def encoder_defs scene_defs)

end
